theory Spec2Isabelle
  imports Main "HOL-Library.Sublist"
begin

section \<open>postdock: database lifecycle commands, run directly or in a container\<close>

text \<open>
  A shallow embedding of \<^verbatim>\<open>postdock.go\<close>. Go strings are byte strings (\<open>string\<close>),
  a Go \<^verbatim>\<open>error\<close> that may be nil is an \<open>error option\<close>, and a Go function returning
  \<^verbatim>\<open>(string, error)\<close> returns the pair \<open>string \<times> error option\<close>, so that the value that
  accompanies an error stays visible. Everything the package does to the outside
  (starting processes, reading the file system, logging, writing files) goes through an
  explicit world that is passed along and returned.
\<close>

subsection \<open>Errors\<close>

text \<open>
  The operating system reports two kinds of error: a process that exits with a status
  other than 0 gives \<^verbatim>\<open>*exec.ExitError\<close> (message \<^verbatim>\<open>exit status N\<close>); every other
  failure (a program that cannot be started, a path that does not exist) is
  \<open>OtherError\<close>.

  The error values of the package: \<^verbatim>\<open>errors.New\<close> and \<^verbatim>\<open>fmt.Errorf\<close> without \<^verbatim>\<open>%w\<close>
  give an error that is only its message; \<^verbatim>\<open>fmt.Errorf\<close> with \<^verbatim>\<open>%w\<close> gives a message
  that wraps another error; \<^verbatim>\<open>strconv.ParseBool\<close> fails with a \<^verbatim>\<open>*strconv.NumError\<close>; an
  error of the operating system is passed on as it is. The variable \<^verbatim>\<open>ErrDBNotExist\<close> is
  a value of the package, so the operating system never returns it.
\<close>

datatype oserror =
    ExitError nat
  | OtherError string

datatype error =
    ErrorString string
  | WrapError string error
  | NumError string string
  | OSError oserror

definition ErrDBNotExist :: error where
  "ErrDBNotExist = ErrorString ''db does not exists''"

text \<open>\<^verbatim>\<open>errors.Is\<close>: the error, or an error it wraps, is the target.\<close>

fun errors_Is :: "error \<Rightarrow> error \<Rightarrow> bool" where
  "errors_Is (WrapError m e) t = (WrapError m e = t \<or> errors_Is e t)"
| "errors_Is e t = (e = t)"

subsection \<open>Strings of the Go standard library\<close>

text \<open>\<^verbatim>\<open>strings.HasPrefix\<close>, \<^verbatim>\<open>strings.Contains\<close> and \<^verbatim>\<open>strings.TrimPrefix\<close>.\<close>

fun HasPrefix :: "string \<Rightarrow> string \<Rightarrow> bool" where
  "HasPrefix s [] = True"
| "HasPrefix [] (p # ps) = False"
| "HasPrefix (c # s) (p # ps) = (c = p \<and> HasPrefix s ps)"

fun Contains :: "string \<Rightarrow> string \<Rightarrow> bool" where
  "Contains [] sub = (sub = [])"
| "Contains (c # s) sub = (HasPrefix (c # s) sub \<or> Contains s sub)"

definition TrimPrefix :: "string \<Rightarrow> string \<Rightarrow> string" where
  "TrimPrefix s p = (if HasPrefix s p then drop (length p) s else s)"

text \<open>
  \<^verbatim>\<open>strings.TrimSpace\<close> removes the leading and the trailing white space as Unicode
  defines it. On a byte string these are the UTF-8 encodings of the code points
  U+0009 to U+000D, U+0020, U+0085, U+00A0, U+1680, U+2000 to U+200A, U+2028, U+2029,
  U+202F, U+205F and U+3000.
\<close>

definition space_runes :: "string list" where
  "space_runes =
     [[CHR 0x09], [CHR 0x0A], [CHR 0x0B], [CHR 0x0C], [CHR 0x0D], [CHR 0x20],
      [CHR 0xC2, CHR 0x85], [CHR 0xC2, CHR 0xA0],
      [CHR 0xE1, CHR 0x9A, CHR 0x80],
      [CHR 0xE2, CHR 0x80, CHR 0x80], [CHR 0xE2, CHR 0x80, CHR 0x81],
      [CHR 0xE2, CHR 0x80, CHR 0x82], [CHR 0xE2, CHR 0x80, CHR 0x83],
      [CHR 0xE2, CHR 0x80, CHR 0x84], [CHR 0xE2, CHR 0x80, CHR 0x85],
      [CHR 0xE2, CHR 0x80, CHR 0x86], [CHR 0xE2, CHR 0x80, CHR 0x87],
      [CHR 0xE2, CHR 0x80, CHR 0x88], [CHR 0xE2, CHR 0x80, CHR 0x89],
      [CHR 0xE2, CHR 0x80, CHR 0x8A],
      [CHR 0xE2, CHR 0x80, CHR 0xA8], [CHR 0xE2, CHR 0x80, CHR 0xA9],
      [CHR 0xE2, CHR 0x80, CHR 0xAF],
      [CHR 0xE2, CHR 0x81, CHR 0x9F],
      [CHR 0xE3, CHR 0x80, CHR 0x80]]"

text \<open>The number of bytes of the first of the runes \<open>rs\<close> that \<open>s\<close> starts with, 0 if none.\<close>

definition leading_rune :: "string list \<Rightarrow> string \<Rightarrow> nat" where
  "leading_rune rs s = (case find (HasPrefix s) rs of None \<Rightarrow> 0 | Some r \<Rightarrow> length r)"

lemma HasPrefix_length: "HasPrefix s p \<Longrightarrow> length p \<le> length s"
  by (induction s p rule: HasPrefix.induct) auto

lemma leading_rune_le: "leading_rune rs s \<le> length s"
  by (auto simp: leading_rune_def find_Some_iff HasPrefix_length split: option.splits)

function TrimLeft :: "string list \<Rightarrow> string \<Rightarrow> string" where
  "TrimLeft rs s = (if leading_rune rs s = 0 then s else TrimLeft rs (drop (leading_rune rs s) s))"
  by pat_completeness auto
termination
proof (relation "measure (\<lambda>(rs, s). length s)")
  show "wf (measure (\<lambda>(rs, s). length s))" by simp
next
  fix rs :: "string list" and s :: string
  assume "leading_rune rs s \<noteq> 0"
  moreover have "leading_rune rs s \<le> length s" by (rule leading_rune_le)
  ultimately show "((rs, drop (leading_rune rs s) s), (rs, s)) \<in> measure (\<lambda>(rs, s). length s)"
    by simp
qed

declare TrimLeft.simps [simp del]

definition TrimSpace :: "string \<Rightarrow> string" where
  "TrimSpace s = rev (TrimLeft (map rev space_runes) (rev (TrimLeft space_runes s)))"

text \<open>
  \<^verbatim>\<open>strconv.ParseBool\<close> accepts exactly twelve spellings; anything else is a syntax
  error that carries the function's name and the input.
\<close>

definition ParseBool :: "string \<Rightarrow> bool \<times> error option" where
  "ParseBool str =
     (if str \<in> set [''1'', ''t'', ''T'', ''TRUE'', ''true'', ''True''] then (True, None)
      else if str \<in> set [''0'', ''f'', ''F'', ''FALSE'', ''false'', ''False''] then (False, None)
      else (False, Some (NumError ''ParseBool'' str)))"

text \<open>The verb \<^verbatim>\<open>%d\<close> of \<^verbatim>\<open>fmt.Sprintf\<close>: an integer in decimal.\<close>

fun digits :: "nat \<Rightarrow> string" where
  "digits n = (if n < 10 then [char_of (48 + n)] else digits (n div 10) @ [char_of (48 + n mod 10)])"

declare digits.simps [simp del]

definition itoa :: "int \<Rightarrow> string" where
  "itoa i = (if i < 0 then CHR ''-'' # digits (nat (- i)) else digits (nat i))"

text \<open>
  \<^verbatim>\<open>filepath.Split\<close>: the directory is everything up to and including the last
  slash, the file is the rest.
\<close>

fun filepath_Split :: "string \<Rightarrow> string \<times> string" where
  "filepath_Split [] = ([], [])"
| "filepath_Split (c # s) =
     (let (dir, file) = filepath_Split s in
      if dir = [] \<and> c \<noteq> CHR ''/'' then ([], c # file) else (c # dir, file))"

text \<open>\<^verbatim>\<open>strings.Join\<close>.\<close>

fun Join :: "string list \<Rightarrow> string \<Rightarrow> string" where
  "Join [] sep = []"
| "Join [a] sep = a"
| "Join (a # b # rest) sep = a @ sep @ Join (b # rest) sep"

subsection \<open>The outside world\<close>

text \<open>
  What the package cannot compute by itself is a parameter \<open>sys\<close>, a record of functions
  over a state \<open>'w\<close> of the operating system that is left open:
  \<^item> \<open>os_Stat path\<close>: the error of \<^verbatim>\<open>os.Stat\<close>, \<open>None\<close> when the path exists;
  \<^item> \<open>exec_CombinedOutput line stdin\<close>: starts the command line with the given standard
    input, waits for it, and returns its combined output and its error (\<open>None\<close> when
    it exited with status 0, \<open>ExitError n\<close> when it exited with status \<open>n\<close>, another
    error when it could not be started);
  \<^item> \<open>filepath_Abs\<close>: \<^verbatim>\<open>filepath.Abs\<close>, which depends on the working directory;
  \<^item> \<open>os_OpenFile\<close> and \<open>file_WriteString\<close>: creating or truncating a file, and writing
    a string to it;
  \<^item> \<open>strconv_Quote\<close>: the verb \<^verbatim>\<open>%q\<close> of \<^verbatim>\<open>fmt.Sprintf\<close>, a pure function whose
    escaping rules (which need the Unicode tables) are left open.

  The world is that state together with the sequence of everything done so far.
\<close>

record 'w sys =
  os_Stat :: "string \<Rightarrow> 'w \<Rightarrow> oserror option"
  exec_CombinedOutput :: "string \<Rightarrow> string \<Rightarrow> 'w \<Rightarrow> (string \<times> oserror option) \<times> 'w"
  filepath_Abs :: "string \<Rightarrow> 'w \<Rightarrow> string \<times> oserror option"
  os_OpenFile :: "string \<Rightarrow> 'w \<Rightarrow> oserror option \<times> 'w"
  file_WriteString :: "string \<Rightarrow> string \<Rightarrow> 'w \<Rightarrow> oserror option \<times> 'w"
  strconv_Quote :: "string \<Rightarrow> string"

datatype event =
    Stat string
  | Proc string string "string \<times> oserror option"
  | Abs string
  | OpenFile string
  | WriteString string string
  | Log string

record 'w world =
  events :: "event list"
  ext :: 'w

definition emit :: "event \<Rightarrow> 'w world \<Rightarrow> 'w world" where
  "emit ev w = w\<lparr>events := events w @ [ev]\<rparr>"

text \<open>\<^verbatim>\<open>log.Printf\<close>, with the message already formatted.\<close>

definition log_Printf :: "string \<Rightarrow> 'w world \<Rightarrow> 'w world" where
  "log_Printf msg w = emit (Log msg) w"

subsection \<open>Pipes of the script library\<close>

text \<open>
  The package runs processes through \<^verbatim>\<open>github.com/bitfield/script\<close>. A pipe of that
  library is an error status and the data still to be read. How \<^verbatim>\<open>script.Exec\<close> splits
  a command line into arguments is left to the world: the command line goes to the world
  as it is, the process gets the pipe's data as standard input, and the new pipe holds
  the combined output and the error of the process. A pipe that already has an error is passed on untouched by every stage.
  \<^verbatim>\<open>ExitStatus\<close> is the status of an exit error and 0 otherwise; \<^verbatim>\<open>String\<close> returns the
  pipe's error if it has one, and all the data if not.
\<close>

datatype pipe = Pipe (perror: "error option") (preader: string)

definition Echo :: "string \<Rightarrow> pipe" where
  "Echo s = Pipe None s"

definition Pipe_Exec :: "'w sys \<Rightarrow> string \<Rightarrow> pipe \<Rightarrow> 'w world \<Rightarrow> pipe \<times> 'w world" where
  "Pipe_Exec sys line p w =
     (if perror p \<noteq> None then (p, w)
      else (let (r, s) = exec_CombinedOutput sys line (preader p) (ext w) in
            (Pipe (map_option OSError (snd r)) (fst r), emit (Proc line (preader p) r) (w\<lparr>ext := s\<rparr>))))"

definition script_Exec :: "'w sys \<Rightarrow> string \<Rightarrow> 'w world \<Rightarrow> pipe \<times> 'w world" where
  "script_Exec sys line w = Pipe_Exec sys line (Pipe None []) w"

definition ExitStatus :: "pipe \<Rightarrow> nat" where
  "ExitStatus p = (case perror p of Some (OSError (ExitError n)) \<Rightarrow> n | _ \<Rightarrow> 0)"

definition SetError :: "error option \<Rightarrow> pipe \<Rightarrow> pipe" where
  "SetError e p = Pipe e (preader p)"

definition String :: "pipe \<Rightarrow> string \<times> error option" where
  "String p = (case perror p of Some e \<Rightarrow> ([], Some e) | None \<Rightarrow> (preader p, None))"

text \<open>
  The line filters read the pipe with \<^verbatim>\<open>bufio.ScanLines\<close>: the data is cut after every
  newline, a last line without a newline counts when it is not empty, and one trailing
  carriage return is dropped from every line. What a filter keeps is written out with a
  newline after every line.
\<close>

fun split_lines :: "string \<Rightarrow> string list" where
  "split_lines [] = []"
| "split_lines (c # s) =
     (if c = CHR 0x0A then [] # split_lines s
      else (case split_lines s of [] \<Rightarrow> [[c]] | l # ls \<Rightarrow> (c # l) # ls))"

definition dropCR :: "string \<Rightarrow> string" where
  "dropCR l = (if l \<noteq> [] \<and> last l = CHR 0x0D then butlast l else l)"

definition ScanLines :: "string \<Rightarrow> string list" where
  "ScanLines s = map dropCR (split_lines s)"

definition write_lines :: "string list \<Rightarrow> string" where
  "write_lines ls = concat (map (\<lambda>l. l @ [CHR 0x0A]) ls)"

definition EachLine :: "(string \<Rightarrow> bool) \<Rightarrow> pipe \<Rightarrow> pipe" where
  "EachLine keep p =
     (if perror p \<noteq> None then p else Echo (write_lines (filter keep (ScanLines (preader p)))))"

definition Reject :: "string \<Rightarrow> pipe \<Rightarrow> pipe" where
  "Reject s p = EachLine (\<lambda>line. \<not> Contains line s) p"

text \<open>
  The regular expressions the package compiles are all of the shape \<^verbatim>\<open>^literal\<close>,
  with a literal that has no metacharacter: such an expression matches a line exactly
  when the line starts with the literal.
\<close>

datatype Regexp = StartsWith string

fun MatchString :: "Regexp \<Rightarrow> string \<Rightarrow> bool" where
  "MatchString (StartsWith lit) s = HasPrefix s lit"

definition RejectRegexp :: "Regexp \<Rightarrow> pipe \<Rightarrow> pipe" where
  "RejectRegexp re p = EachLine (\<lambda>line. \<not> MatchString re line) p"

subsection \<open>Options and their validation\<close>

record Options =
  DockerImage :: string
  DockerNetwork :: string
  dockerVolume :: string
  DBName :: string
  DBHost :: string
  DBPort :: int
  DBUser :: string
  DBPassword :: string
  Debug :: bool

definition isValid :: "Options \<Rightarrow> string \<Rightarrow> error option" where
  "isValid opt dbName =
     (if dbName = [] then Some (ErrorString ''postdock: required option: db name'')
      else if DBHost opt = [] then Some (ErrorString ''postdock: required option: db host'')
      else if DBUser opt = [] then Some (ErrorString ''postdock: required option: db user'')
      else if DBPassword opt = [] then
        Some (ErrorString ''postdock: required option: db password'')
      else if DockerImage opt = [] then
        Some (ErrorString
          ''postdock: required option: docker base image (ex: postgres:11.7-alpine'')
      else None)"

subsection \<open>Building the command lines\<close>

definition psql :: "'w sys \<Rightarrow> string \<Rightarrow> string \<Rightarrow> Options \<Rightarrow> string" where
  "psql sys dbName query opt =
     (let opt = (if DBPort opt = 0 then opt\<lparr>DBPort := 5432\<rparr> else opt) in
      ''PGPASSWORD='' @ DBPassword opt @ '' psql -h '' @ DBHost opt @ '' -d '' @ dbName @
      '' -U '' @ DBUser opt @ '' -p '' @ itoa (DBPort opt) @
      '' -v ON_ERROR_STOP=1 -t -c '' @ strconv_Quote sys query)"

definition psqlFile :: "string \<Rightarrow> string \<Rightarrow> Options \<Rightarrow> string" where
  "psqlFile dbName fileName opt =
     (let opt = (if DBPort opt = 0 then opt\<lparr>DBPort := 5432\<rparr> else opt) in
      ''PGPASSWORD='' @ DBPassword opt @ '' psql -h '' @ DBHost opt @ '' -d '' @ dbName @
      '' -U '' @ DBUser opt @ '' -p '' @ itoa (DBPort opt) @
      '' -v ON_ERROR_STOP=1 --file='' @ fileName)"

subsection \<open>Running a command line\<close>

definition inDocker :: "'w sys \<Rightarrow> 'w world \<Rightarrow> bool \<times> 'w world" where
  "inDocker sys w =
     (if os_Stat sys ''/.dockerenv'' (ext w) = None then (True, emit (Stat ''/.dockerenv'') w)
      else (False, emit (Stat ''/.dockerenv'') w))"

definition dockerPull :: "'w sys \<Rightarrow> string \<Rightarrow> 'w world \<Rightarrow> error option \<times> 'w world" where
  "dockerPull sys imageName w =
     (let (p, w) = script_Exec sys (''docker pull -q '' @ imageName) w in
      if ExitStatus p > 0 then
        (let p = SetError None p; out = fst (String p) in
         (Some (ErrorString (''raw error: '' @ out)), w))
      else (None, w))"

definition run :: "'w sys \<Rightarrow> string \<Rightarrow> Options \<Rightarrow> 'w world \<Rightarrow> (string \<times> error option) \<times> 'w world" where
  "run sys cmd opt w =
     (let (inside, w) = inDocker sys w in
      if inside then
        (let (p, w) = script_Exec sys cmd w; n = ExitStatus p in
         if n > 0 then
           (let p = SetError None p; out = fst (String p) in
            (([], Some (ErrorString (''raw error: '' @ out))), w))
         else (case String p of
                 (out, Some err) \<Rightarrow> (([], Some err), w)
               | (out, None) \<Rightarrow> ((TrimSpace out, None), w)))
      else
        (case dockerPull sys (DockerImage opt) w of
           (Some err, w) \<Rightarrow> (([], Some err), w)
         | (None, w) \<Rightarrow>
            (let network = (if DockerNetwork opt \<noteq> [] then ''--network='' @ DockerNetwork opt
                            else []);
                 vol = (if dockerVolume opt \<noteq> [] then ''--volume '' @ dockerVolume opt else []);
                 e = ''docker run --rm '' @ network @ '' '' @ vol @ '' '' @ DockerImage opt @
                     '' sh -c '' @ strconv_Quote sys cmd;
                 w = (if Debug opt then log_Printf (''raw docker command:'' @ [CHR 0x0A] @ e) w
                      else w);
                 (p, w) = script_Exec sys e w;
                 n = ExitStatus p in
             if n > 0 then
               (let p = SetError None p; out = fst (String p) in
                (([], Some (ErrorString (''raw error: '' @ out))), w))
             else (case String p of
                     (out, Some err) \<Rightarrow> (([], Some err), w)
                   | (out, None) \<Rightarrow> ((TrimSpace out, None), w)))))"

subsection \<open>The lifecycle operations\<close>

definition Exists :: "'w sys \<Rightarrow> string \<Rightarrow> Options \<Rightarrow> 'w world \<Rightarrow> error option \<times> 'w world" where
  "Exists sys dbName opt w =
     (case isValid opt dbName of
        Some err \<Rightarrow> (Some err, w)
      | None \<Rightarrow>
         (let q = ''SELECT EXISTS ( SELECT datname FROM pg_database WHERE datname = '' @
                  [CHR 0x27] @ dbName @ [CHR 0x27] @ '')'';
              cmd = psql sys ''postgres'' q opt in
          case run sys cmd opt w of
            ((out, Some err), w) \<Rightarrow> (Some err, w)
          | ((out, None), w) \<Rightarrow>
             (case ParseBool out of
                (exists, Some err) \<Rightarrow> (Some err, w)
              | (exists, None) \<Rightarrow>
                 if exists then
                   (None, if Debug opt
                          then log_Printf (''skipping creating db:'' @ dbName @ '' exists'') w
                          else w)
                 else (Some (WrapError (dbName @ '': db does not exists'') ErrDBNotExist), w))))"

definition Create :: "'w sys \<Rightarrow> string \<Rightarrow> Options \<Rightarrow> 'w world \<Rightarrow> error option \<times> 'w world" where
  "Create sys dbName opt w =
     (case isValid opt dbName of
        Some err \<Rightarrow> (Some err, w)
      | None \<Rightarrow>
         (let q = ''SELECT EXISTS ( SELECT usename FROM pg_catalog.pg_user WHERE usename = '' @
                  [CHR 0x27] @ DBUser opt @ [CHR 0x27] @ '');'';
              cmd = psql sys ''postgres'' q opt in
          case run sys cmd opt w of
            ((out, Some err), w) \<Rightarrow> (Some err, w)
          | ((out, None), w) \<Rightarrow>
             (case ParseBool out of
                (exists, Some err) \<Rightarrow> (Some err, w)
              | (exists, None) \<Rightarrow>
                 (case (if \<not> exists then
                          (let q = ''CREATE USER '' @ DBUser opt @ '' WITH PASSWORD '' @
                                   [CHR 0x27] @ DBPassword opt @ [CHR 0x27] @ '';'';
                               cmd = psql sys ''postgres'' q opt in
                           case run sys cmd opt w of
                             ((out, Some err), w) \<Rightarrow> (Some err, w)
                           | ((out, None), w) \<Rightarrow>
                              (None, if Debug opt
                                     then log_Printf (''['' @ out @
                                            '']: successfully created user:'' @ DBUser opt) w
                                     else w))
                        else (None, w)) of
                    (Some err, w) \<Rightarrow> (Some err, w)
                  | (None, w) \<Rightarrow>
                     (case Exists sys dbName opt w of
                        (None, w) \<Rightarrow>
                          (None, if Debug opt
                                 then log_Printf (''skipping creating existing database:'' @ dbName) w
                                 else w)
                      | (Some err, w) \<Rightarrow>
                         (let q = ''CREATE DATABASE '' @ dbName @
                                  '' ENCODING '' @ [CHR 0x27] @ ''UTF-8'' @ [CHR 0x27] @
                                  '' LC_COLLATE='' @ [CHR 0x27] @ ''en_US.UTF-8'' @ [CHR 0x27] @
                                  '' LC_CTYPE='' @ [CHR 0x27] @ ''en_US.UTF-8'' @ [CHR 0x27] @
                                  '' TEMPLATE template0 OWNER '' @ DBUser opt @ '';'';
                              cmd = psql sys ''postgres'' q opt in
                          case run sys cmd opt w of
                            ((out, Some err), w) \<Rightarrow> (Some err, w)
                          | ((out, None), w) \<Rightarrow>
                             (let w = (if Debug opt
                                       then log_Printf (''['' @ out @
                                              '']: successfully created database:'' @ dbName) w
                                       else w);
                                  queries = map (\<lambda>q. q @ DBUser opt)
                                    [''GRANT ALL PRIVILEGES ON ALL TABLES IN SCHEMA public TO '',
                                     ''GRANT ALL PRIVILEGES ON ALL SEQUENCES IN SCHEMA public TO '',
                                     ''ALTER DEFAULT PRIVILEGES IN SCHEMA public GRANT ALL PRIVILEGES ON TABLES TO '',
                                     ''ALTER DEFAULT PRIVILEGES IN SCHEMA public GRANT ALL PRIVILEGES ON SEQUENCES TO ''];
                                  cmd = psql sys dbName (Join queries ''; '') opt in
                              case run sys cmd opt w of
                                ((out, Some err), w) \<Rightarrow> (Some err, w)
                              | ((out, None), w) \<Rightarrow>
                                 (None, if Debug opt
                                        then log_Printf (''successfully applied PRIVILEGES to user:'' @
                                               DBUser opt @ '' on db:'' @ dbName) w
                                        else w))))))))"

definition Terminate :: "'w sys \<Rightarrow> string \<Rightarrow> Options \<Rightarrow> 'w world \<Rightarrow> error option \<times> 'w world" where
  "Terminate sys dbName opt w =
     (case isValid opt dbName of
        Some err \<Rightarrow> (Some err, w)
      | None \<Rightarrow>
         (let q = ''SELECT pg_terminate_backend(pid) FROM pg_stat_activity WHERE datname = '' @
                  [CHR 0x27] @ dbName @ [CHR 0x27] @ '';'';
              cmd = psql sys ''postgres'' q opt in
          case run sys cmd opt w of
            ((out, Some err), w) \<Rightarrow> (Some err, w)
          | ((out, None), w) \<Rightarrow>
             (None, if Debug opt
                    then log_Printf (''['' @ out @ '']: terminate db:'' @ dbName @
                           '' errors:<nil>'') w
                    else w)))"

definition Drop :: "'w sys \<Rightarrow> string \<Rightarrow> Options \<Rightarrow> 'w world \<Rightarrow> error option \<times> 'w world" where
  "Drop sys dbName opt w =
     (case Terminate sys dbName opt w of
        (Some err, w) \<Rightarrow> (Some err, w)
      | (None, w) \<Rightarrow>
         (let q = ''DROP DATABASE IF EXISTS '' @ dbName @ '';'';
              cmd = psql sys ''postgres'' q opt in
          case run sys cmd opt w of
            ((out, Some err), w) \<Rightarrow> (Some err, w)
          | ((out, None), w) \<Rightarrow>
             (None, if Debug opt then log_Printf (''['' @ out @ '']: drop db:'' @ dbName) w
                    else w)))"

definition Import :: "'w sys \<Rightarrow> string \<Rightarrow> string \<Rightarrow> Options \<Rightarrow> 'w world \<Rightarrow> error option \<times> 'w world" where
  "Import sys dbName sqlFile opt w =
     (if sqlFile = [] then (Some (ErrorString ''required option: sql file to import''), w)
      else
        (case Drop sys dbName opt w of
           (Some err, w) \<Rightarrow> (Some err, w)
         | (None, w) \<Rightarrow>
            (case Create sys dbName opt w of
               (Some err, w) \<Rightarrow> (Some err, w)
             | (None, w) \<Rightarrow>
                (let file = TrimPrefix sqlFile ''.'';
                     file = TrimPrefix file ''/'';
                     dir = fst (filepath_Split file) in
                 case filepath_Abs sys dir (ext w) of
                   (absDir, Some err) \<Rightarrow> (Some (OSError err), emit (Abs dir) w)
                 | (absDir, None) \<Rightarrow>
                    (let w = emit (Abs dir) w;
                         opt = opt\<lparr>dockerVolume := absDir @ '':/'' @ dir\<rparr>;
                         cmd = psqlFile dbName sqlFile opt in
                     case run sys cmd opt w of
                       ((out, Some err), w) \<Rightarrow> (Some err, w)
                     | ((out, None), w) \<Rightarrow>
                        (None, if Debug opt
                               then log_Printf (''['' @ out @ '']: successfully imported into db:'' @
                                      dbName @ '' from file:'' @ sqlFile) w
                               else w))))))"

subsection \<open>The schema dump\<close>

definition SchemaDump :: "'w sys \<Rightarrow> string \<Rightarrow> string \<Rightarrow> Options \<Rightarrow> 'w world \<Rightarrow> (string \<times> error option) \<times> 'w world" where
  "SchemaDump sys dbName outputFile opt w =
     (case isValid opt dbName of
        Some err \<Rightarrow> (([], Some err), w)
      | None \<Rightarrow>
         (let opt = (if DBPort opt = 0 then opt\<lparr>DBPort := 5432\<rparr> else opt);
              cmd = ''PGPASSWORD='' @ DBPassword opt @ '' pg_dump -h '' @ DBHost opt @ '' -p '' @
                    itoa (DBPort opt) @ '' -U '' @ DBUser opt @ '' '' @ dbName @ '' --schema-only'' in
          case run sys cmd opt w of
            ((out, Some err), w) \<Rightarrow> (([], Some err), w)
          | ((out, None), w) \<Rightarrow>
             (let (p, w) = Pipe_Exec sys ''cat -s''
                    (RejectRegexp (StartsWith ''GRANT'')
                    (RejectRegexp (StartsWith ''SET'')
                    (RejectRegexp (StartsWith ''COMMENT ON'')
                    (RejectRegexp (StartsWith ''REVOKE'')
                    (RejectRegexp (StartsWith ''--'')
                    (Reject ''OWNER TO''
                    (Reject ''ALTER DEFAULT PRIVILEGES''
                    (Echo out)))))))) w;
                  n = ExitStatus p in
              if n > 0 then
                (let p = SetError None p; out = fst (String p) in
                 (([], Some (ErrorString (''raw error: '' @ out))), w))
              else
                (case String p of
                   (dump, Some err) \<Rightarrow> (([], Some err), w)
                 | (dump, None) \<Rightarrow>
                    if outputFile \<noteq> [] then
                      (case os_OpenFile sys outputFile (ext w) of
                         (Some err, s) \<Rightarrow>
                           (([], Some (OSError err)), emit (OpenFile outputFile) (w\<lparr>ext := s\<rparr>))
                       | (None, s) \<Rightarrow>
                          (let w = emit (OpenFile outputFile) (w\<lparr>ext := s\<rparr>) in
                           case file_WriteString sys outputFile dump (ext w) of
                             (Some err, s) \<Rightarrow>
                               (([], Some (OSError err)),
                                emit (WriteString outputFile dump) (w\<lparr>ext := s\<rparr>))
                           | (None, s) \<Rightarrow>
                               ((dump, None), emit (WriteString outputFile dump) (w\<lparr>ext := s\<rparr>))))
                    else ((dump, None), w)))))"

subsection \<open>The program cat\<close>

text \<open>
  The dump is piped through the program \<^verbatim>\<open>cat -s\<close>, which is not part of the package.
  With \<^verbatim>\<open>-s\<close> it copies its input and suppresses repeated empty lines: an empty line
  that follows an empty line is not written. A last line without a newline stays
  without one.
\<close>

fun squeeze_blank :: "string list \<Rightarrow> string list" where
  "squeeze_blank (a # b # ls) =
     (if a = [] \<and> b = [] then squeeze_blank (b # ls) else a # squeeze_blank (b # ls))"
| "squeeze_blank ls = ls"

definition cat_s :: "string \<Rightarrow> string" where
  "cat_s s =
     (let out = write_lines (squeeze_blank (split_lines s)) in
      if s = [] \<or> last s = CHR 0x0A then out else butlast out)"

text \<open>
  The same in the words of the specification: every run of consecutive blank lines
  becomes a single blank line.
\<close>

function collapse_blank_runs :: "string list \<Rightarrow> string list" where
  "collapse_blank_runs [] = []"
| "collapse_blank_runs (l # ls) =
     (if l = [] then [] # collapse_blank_runs (dropWhile (\<lambda>x. x = []) ls)
      else l # collapse_blank_runs ls)"
  by pat_completeness auto
termination
  by (relation "measure length") (auto simp: length_dropWhile_le less_Suc_eq_le)

subsection \<open>A world for examples\<close>

text \<open>
  A world that is a script: inside or outside a container, the processes answer with the
  given replies in turn (and with empty output and status 0 when the replies are used
  up), except for \<^verbatim>\<open>cat -s\<close>, which does its work without using up a reply. The state is
  the number of replies given. The working directory is \<^verbatim>\<open>/work\<close> (paths are taken
  to be relative to it), files can always be written, and quoting puts a string between
  double quotes.
\<close>

definition scripted :: "bool \<Rightarrow> (string \<times> oserror option) list \<Rightarrow> nat sys" where
  "scripted inside replies =
     \<lparr>os_Stat = (\<lambda>path s. if inside then None else Some (OtherError ''no such file or directory'')),
      exec_CombinedOutput = (\<lambda>line stdin s.
        if line = ''cat -s'' then ((cat_s stdin, None), s)
        else if s < length replies then (replies ! s, Suc s)
        else (([], None), Suc s)),
      filepath_Abs = (\<lambda>dir s.
        (if dir = [] then ''/work''
         else ''/work/'' @ (if last dir = CHR ''/'' then butlast dir else dir), None)),
      os_OpenFile = (\<lambda>name s. (None, s)),
      file_WriteString = (\<lambda>name text s. (None, s)),
      strconv_Quote = (\<lambda>q. [CHR 0x22] @ q @ [CHR 0x22])\<rparr>"

definition start :: "nat world" where
  "start = \<lparr>events = [], ext = 0\<rparr>"

definition options1 :: Options where
  "options1 =
     \<lparr>DockerImage = ''postgres:11.8-alpine'', DockerNetwork = [], dockerVolume = [],
      DBName = [], DBHost = ''db'', DBPort = 0, DBUser = ''app'', DBPassword = ''secret'',
      Debug = False\<rparr>"

text \<open>
  Inside a container: the user exists, the query of \<open>Exists\<close> cannot reach the server and
  exits with status 2, and every later command succeeds.
\<close>

definition failing_Exists :: "nat sys" where
  "failing_Exists = scripted True
     [('' t'', None), (''psql: could not connect to server'', Some (ExitError 2)),
      (''CREATE DATABASE'', None), (''ALTER DEFAULT PRIVILEGES'', None)]"

text \<open>
  Inside a container: every command succeeds, the user exists and the database does not.
\<close>

definition import_world :: "nat sys" where
  "import_world = scripted True
     [([], None), ([], None), ('' t'', None), ('' f'', None), ([], None), ([], None), ([], None)]"

text \<open>The raw dump of the specification's example, and a world whose dump prints it.\<close>

definition example_dump :: string where
  "example_dump = ''-- comment'' @ [CHR 0x0A] @ ''GRANT x'' @ [CHR 0x0A] @
     ''CREATE TABLE t();'' @ [CHR 0x0A, CHR 0x0A, CHR 0x0A] @ ''SET x=y;''"

definition dump_world :: "nat sys" where
  "dump_world = scripted True [(example_dump, None)]"

subsection \<open>Notions used in the statements\<close>

text \<open>
  What \<open>run\<close> returns for a process that ended with combined output \<open>so\<close> and error
  \<open>se\<close>, and the two command lines it builds outside a container.
\<close>

definition outcome :: "string \<Rightarrow> oserror option \<Rightarrow> string \<times> error option" where
  "outcome so se =
     (case se of
        None \<Rightarrow> (TrimSpace so, None)
      | Some (ExitError n) \<Rightarrow>
          if n > 0 then ([], Some (ErrorString (''raw error: '' @ so)))
          else ([], Some (OSError (ExitError n)))
      | Some (OtherError m) \<Rightarrow> ([], Some (OSError (OtherError m))))"

definition container_line :: "'w sys \<Rightarrow> string \<Rightarrow> Options \<Rightarrow> string" where
  "container_line sys cmd opt =
     ''docker run --rm '' @
     (if DockerNetwork opt \<noteq> [] then ''--network='' @ DockerNetwork opt else []) @ '' '' @
     (if dockerVolume opt \<noteq> [] then ''--volume '' @ dockerVolume opt else []) @ '' '' @
     DockerImage opt @ '' sh -c '' @ strconv_Quote sys cmd"

definition pull_line :: "Options \<Rightarrow> string" where
  "pull_line opt = ''docker pull -q '' @ DockerImage opt"

text \<open>The command line of the schema dump, with the port defaulted.\<close>

definition dump_line :: "string \<Rightarrow> Options \<Rightarrow> string" where
  "dump_line dbName opt =
     ''PGPASSWORD='' @ DBPassword opt @ '' pg_dump -h '' @ DBHost opt @ '' -p '' @
     itoa (if DBPort opt = 0 then 5432 else DBPort opt) @ '' -U '' @ DBUser opt @ '' '' @
     dbName @ '' --schema-only''"

text \<open>
  The filter of the dump in the words of the specification: a line stays unless it
  contains \<^verbatim>\<open>ALTER DEFAULT PRIVILEGES\<close> or \<^verbatim>\<open>OWNER TO\<close>, or starts with \<^verbatim>\<open>--\<close>,
  \<^verbatim>\<open>REVOKE\<close>, \<^verbatim>\<open>COMMENT ON\<close>, \<^verbatim>\<open>SET\<close> or \<^verbatim>\<open>GRANT\<close>; then the runs of blank lines
  are collapsed.
\<close>

definition spec_keeps_line :: "string \<Rightarrow> bool" where
  "spec_keeps_line l =
     (\<not> sublist ''ALTER DEFAULT PRIVILEGES'' l \<and> \<not> sublist ''OWNER TO'' l \<and>
      \<not> prefix ''--'' l \<and> \<not> prefix ''REVOKE'' l \<and> \<not> prefix ''COMMENT ON'' l \<and>
      \<not> prefix ''SET'' l \<and> \<not> prefix ''GRANT'' l)"

definition spec_dump_filter :: "string list \<Rightarrow> string list" where
  "spec_dump_filter ls = collapse_blank_runs (filter spec_keeps_line ls)"

text \<open>A sequence of line filters, applied one after the other.\<close>

fun stages :: "(string \<Rightarrow> bool) list \<Rightarrow> pipe \<Rightarrow> pipe" where
  "stages [] p = p"
| "stages (k # ks) p = stages ks (EachLine k p)"

text \<open>Stripping one leading character, in the words of the specification.\<close>

definition strip_leading :: "char \<Rightarrow> string \<Rightarrow> string" where
  "strip_leading c s = (if s \<noteq> [] \<and> hd s = c then tl s else s)"

section \<open>Properties\<close>

subsection \<open>What run does, path by path\<close>

lemmas run_defs = run_def inDocker_def dockerPull_def script_Exec_def Pipe_Exec_def emit_def
  ExitStatus_def SetError_def String_def Let_def outcome_def log_Printf_def
  container_line_def pull_line_def

lemma run_inside:
  assumes "os_Stat sys ''/.dockerenv'' (ext w) = None"
    and "exec_CombinedOutput sys cmd [] (ext w) = ((so, se), s)"
  shows "run sys cmd opt w =
    (outcome so se, \<lparr>events = events w @ [Stat ''/.dockerenv'', Proc cmd [] (so, se)], ext = s\<rparr>)"
proof (cases se)
  case None
  with assms show ?thesis by (simp add: run_defs)
next
  case (Some x)
  with assms show ?thesis by (cases x) (simp_all add: run_defs)
qed

lemma run_outside_pull_failed:
  assumes "os_Stat sys ''/.dockerenv'' (ext w) = Some x"
    and "exec_CombinedOutput sys (pull_line opt) [] (ext w) = ((po, Some (ExitError n)), s)"
    and "n > 0"
  shows "run sys cmd opt w = (([], Some (ErrorString (''raw error: '' @ po))),
     \<lparr>events = events w @ [Stat ''/.dockerenv'',
        Proc (pull_line opt) [] (po, Some (ExitError n))], ext = s\<rparr>)"
  using assms by (simp add: run_defs)

lemma run_outside_pulled:
  assumes "os_Stat sys ''/.dockerenv'' (ext w) = Some x"
    and "exec_CombinedOutput sys (pull_line opt) [] (ext w) = ((po, pe), s)"
    and "\<forall>n. pe = Some (ExitError n) \<longrightarrow> n = 0"
    and "exec_CombinedOutput sys (container_line sys cmd opt) [] s = ((so, se), s')"
  shows "run sys cmd opt w = (outcome so se,
     \<lparr>events = events w @ [Stat ''/.dockerenv'', Proc (pull_line opt) [] (po, pe)] @
        (if Debug opt
         then [Log (''raw docker command:'' @ [CHR 0x0A] @ container_line sys cmd opt)] else []) @
        [Proc (container_line sys cmd opt) [] (so, se)], ext = s'\<rparr>)"
proof -
  consider "pe = None" | m where "pe = Some (OtherError m)" | "pe = Some (ExitError 0)"
    using assms(3) by (cases pe; cases "the pe") auto
  then show ?thesis
  proof cases
    case 1
    show ?thesis
    proof (cases se)
      case None
      with 1 assms(1,2,4) show ?thesis by (simp add: run_defs)
    next
      case (Some y)
      with 1 assms(1,2,4) show ?thesis by (cases y) (simp_all add: run_defs)
    qed
  next
    case 2
    show ?thesis
    proof (cases se)
      case None
      with 2 assms(1,2,4) show ?thesis by (simp add: run_defs)
    next
      case (Some y)
      with 2 assms(1,2,4) show ?thesis by (cases y) (simp_all add: run_defs)
    qed
  next
    case 3
    show ?thesis
    proof (cases se)
      case None
      with 3 assms(1,2,4) show ?thesis by (simp add: run_defs)
    next
      case (Some y)
      with 3 assms(1,2,4) show ?thesis by (cases y) (simp_all add: run_defs)
    qed
  qed
qed

lemma outcome_pull_failed:
  "0 < n \<Longrightarrow> outcome po (Some (ExitError n)) = ([], Some (ErrorString (''raw error: '' @ po)))"
  by (simp add: outcome_def)

text \<open>
  On every path the last thing \<open>run\<close> does is to wait for a process, and what it returns
  is the outcome of that process.
\<close>

lemma run_outcome:
  "\<exists>evs line so se s.
     run sys cmd opt w = (outcome so se, \<lparr>events = evs @ [Proc line [] (so, se)], ext = s\<rparr>) \<and>
     (se = None \<longrightarrow>
        line = (if os_Stat sys ''/.dockerenv'' (ext w) = None then cmd
                else container_line sys cmd opt))"
proof (cases "os_Stat sys ''/.dockerenv'' (ext w)")
  case None
  obtain so se s where "exec_CombinedOutput sys cmd [] (ext w) = ((so, se), s)"
    by (cases "exec_CombinedOutput sys cmd [] (ext w)") auto
  from run_inside [OF None this, of opt] None
  have "run sys cmd opt w =
      (outcome so se,
       \<lparr>events = (events w @ [Stat ''/.dockerenv'']) @ [Proc cmd [] (so, se)], ext = s\<rparr>) \<and>
     (se = None \<longrightarrow>
        cmd = (if os_Stat sys ''/.dockerenv'' (ext w) = None then cmd
                else container_line sys cmd opt))"
    by simp
  then show ?thesis by blast
next
  case (Some x)
  obtain po pe s where p: "exec_CombinedOutput sys (pull_line opt) [] (ext w) = ((po, pe), s)"
    by (cases "exec_CombinedOutput sys (pull_line opt) [] (ext w)") auto
  show ?thesis
  proof (cases "\<exists>n>0. pe = Some (ExitError n)")
    case True
    then obtain n where n: "0 < n" "pe = Some (ExitError n)" by blast
    from run_outside_pull_failed [OF Some p [unfolded n(2)] n(1), of cmd]
      outcome_pull_failed [OF n(1), of po]
    have "run sys cmd opt w =
      (outcome po (Some (ExitError n)),
       \<lparr>events = (events w @ [Stat ''/.dockerenv'']) @
          [Proc (pull_line opt) [] (po, Some (ExitError n))], ext = s\<rparr>) \<and>
      (Some (ExitError n) = None \<longrightarrow>
        pull_line opt = (if os_Stat sys ''/.dockerenv'' (ext w) = None then cmd
                else container_line sys cmd opt))"
      by simp
    then show ?thesis by blast
  next
    case False
    then have z: "\<forall>n. pe = Some (ExitError n) \<longrightarrow> n = 0" by auto
    obtain so se s' where
      c: "exec_CombinedOutput sys (container_line sys cmd opt) [] s = ((so, se), s')"
      by (cases "exec_CombinedOutput sys (container_line sys cmd opt) [] s") auto
    from run_outside_pulled [OF Some p z c] Some
    have "run sys cmd opt w = (outcome so se,
     \<lparr>events = (events w @ [Stat ''/.dockerenv'', Proc (pull_line opt) [] (po, pe)] @
        (if Debug opt
         then [Log (''raw docker command:'' @ [CHR 0x0A] @ container_line sys cmd opt)]
         else [])) @
        [Proc (container_line sys cmd opt) [] (so, se)], ext = s'\<rparr>) \<and>
      (se = None \<longrightarrow>
        container_line sys cmd opt = (if os_Stat sys ''/.dockerenv'' (ext w) = None then cmd
                else container_line sys cmd opt))"
      by simp
    then show ?thesis by blast
  qed
qed

lemma outcome_props:
  assumes "outcome so se = (out, err)"
  shows "(err = None \<longleftrightarrow> se = None) \<and> (se = None \<longrightarrow> out = TrimSpace so) \<and>
    (\<forall>n. se = Some (ExitError n) \<and> 0 < n \<longrightarrow>
       out = [] \<and> err = Some (ErrorString (''raw error: '' @ so)))"
proof (cases se)
  case None
  with assms show ?thesis by (auto simp: outcome_def)
next
  case (Some x)
  with assms show ?thesis by (cases x) (auto simp: outcome_def split: if_splits)
qed

subsection \<open>Evaluation in the example world\<close>

lemma TrimSpace_ok: "TrimSpace ''ok'' = ''ok''"
  by (simp add: TrimSpace_def TrimLeft.simps leading_rune_def space_runes_def)

lemma TrimSpace_t: "TrimSpace '' t'' = ''t''"
  by (simp add: TrimSpace_def TrimLeft.simps leading_rune_def space_runes_def)

lemma psql_not_cat: "psql sys d q opt \<noteq> ''cat -s''"
  by (simp add: psql_def Let_def)

lemma run_scripted_inside:
  assumes "cmd \<noteq> ''cat -s''" and "k < length rs"
  shows "run (scripted True rs) cmd opt \<lparr>events = evs, ext = k\<rparr> =
     (outcome (fst (rs ! k)) (snd (rs ! k)),
      \<lparr>events = evs @ [Stat ''/.dockerenv'', Proc cmd [] (rs ! k)], ext = Suc k\<rparr>)"
proof -
  have "os_Stat (scripted True rs) ''/.dockerenv'' (ext \<lparr>events = evs, ext = k\<rparr>) = None"
    by (simp add: scripted_def)
  moreover have
    "exec_CombinedOutput (scripted True rs) cmd [] (ext \<lparr>events = evs, ext = k\<rparr>) =
     ((fst (rs ! k), snd (rs ! k)), Suc k)"
    using assms by (simp add: scripted_def)
  ultimately show ?thesis
    using run_inside [of "scripted True rs" "\<lparr>events = evs, ext = k\<rparr>" cmd
        "fst (rs ! k)" "snd (rs ! k)" "Suc k" opt]
    by simp
qed

subsection \<open>Create and a failing existence check\<close>

text \<open>
  C1. The claim: during \<open>Create\<close> every step's execution error aborts the operation and is
  returned as it is; in particular, when the existence check fails with a hard error,
  \<open>Create\<close> returns that error and does not go on to create the database.

  The code tests the result of \<open>Exists\<close> only against nil. In the world
  \<open>failing_Exists\<close> the user exists and the query of \<open>Exists\<close> exits with status 2: \<open>Create\<close>
  goes on, runs \<^verbatim>\<open>CREATE DATABASE\<close> and the grants, and returns nil; the error of
  \<open>Exists\<close> is lost.
\<close>

theorem Create_after_failed_Exists:
  "Create failing_Exists ''shop'' options1 start =
     (None, \<lparr>events =
        [Stat ''/.dockerenv'',
         Proc (psql failing_Exists ''postgres''
           ''SELECT EXISTS ( SELECT usename FROM pg_catalog.pg_user WHERE usename = 'app');''
           options1) [] ('' t'', None),
         Stat ''/.dockerenv'',
         Proc (psql failing_Exists ''postgres''
           ''SELECT EXISTS ( SELECT datname FROM pg_database WHERE datname = 'shop')''
           options1) [] (''psql: could not connect to server'', Some (ExitError 2)),
         Stat ''/.dockerenv'',
         Proc (psql failing_Exists ''postgres''
           ''CREATE DATABASE shop ENCODING 'UTF-8' LC_COLLATE='en_US.UTF-8' LC_CTYPE='en_US.UTF-8' TEMPLATE template0 OWNER app;''
           options1) [] (''CREATE DATABASE'', None),
         Stat ''/.dockerenv'',
         Proc (psql failing_Exists ''shop''
           ''GRANT ALL PRIVILEGES ON ALL TABLES IN SCHEMA public TO app; GRANT ALL PRIVILEGES ON ALL SEQUENCES IN SCHEMA public TO app; ALTER DEFAULT PRIVILEGES IN SCHEMA public GRANT ALL PRIVILEGES ON TABLES TO app; ALTER DEFAULT PRIVILEGES IN SCHEMA public GRANT ALL PRIVILEGES ON SEQUENCES TO app''
           options1) [] (''ALTER DEFAULT PRIVILEGES'', None)],
      ext = 4\<rparr>)"
  by (simp add: Create_def Exists_def failing_Exists_def start_def options1_def isValid_def
      run_scripted_inside psql_not_cat outcome_def TrimSpace_t ParseBool_def Let_def
      log_Printf_def emit_def)

subsection \<open>The result of run\<close>

text \<open>
  C2. \<open>run\<close> returns the trimmed output and no error exactly when the process it waited
  for last exited with status 0 and its output was read (the world reports no error for
  it); that process is then the command itself inside a container, and the container
  started for the command outside. Whenever the process exited with a status greater
  than 0, \<open>run\<close> returns the empty output and an error whose message contains the
  captured output.
\<close>

theorem run_result:
  assumes "run sys cmd opt w = ((out, err), w')"
  shows "events w' \<noteq> [] \<and>
    (case last (events w') of
       Proc line stdin (so, se) \<Rightarrow>
         (err = None \<longleftrightarrow> se = None) \<and>
         (se = None \<longrightarrow> out = TrimSpace so \<and>
            line = (if fst (inDocker sys w) then cmd else container_line sys cmd opt)) \<and>
         (\<forall>n. se = Some (ExitError n) \<and> 0 < n \<longrightarrow>
            out = [] \<and> err = Some (ErrorString (''raw error: '' @ so)) \<and>
            sublist so (''raw error: '' @ so))
     | _ \<Rightarrow> False)"
proof -
  from run_outcome [of sys cmd opt w] obtain evs line so se s where
    r: "run sys cmd opt w = (outcome so se, \<lparr>events = evs @ [Proc line [] (so, se)], ext = s\<rparr>)"
    and l: "se = None \<longrightarrow> line = (if os_Stat sys ''/.dockerenv'' (ext w) = None then cmd
                else container_line sys cmd opt)"
    by blast
  from r assms have o: "outcome so se = (out, err)"
    and w': "events w' = evs @ [Proc line [] (so, se)]"
    by auto
  have i: "fst (inDocker sys w) = (os_Stat sys ''/.dockerenv'' (ext w) = None)"
    by (simp add: inDocker_def)
  have s: "sublist so (''raw error: '' @ so)"
    by (rule sublist_append_leftI)
  from outcome_props [OF o]
  have "(err = None \<longleftrightarrow> se = None) \<and> (se = None \<longrightarrow> out = TrimSpace so) \<and>
    (\<forall>n. se = Some (ExitError n) \<and> 0 < n \<longrightarrow>
       out = [] \<and> err = Some (ErrorString (''raw error: '' @ so)))" .
  with l i s show ?thesis
    unfolding w' by simp
qed

text \<open>
  The two examples of the claim, inside a container: status 0 with output \<^verbatim>\<open>ok\<close>, and
  status 1 with output \<^verbatim>\<open>boom\<close>.
\<close>

theorem run_result_witness:
  "run (scripted True [(''ok'', None)]) ''psql'' options1 start =
     ((''ok'', None),
      \<lparr>events = [Stat ''/.dockerenv'', Proc ''psql'' [] (''ok'', None)], ext = 1\<rparr>) \<and>
   ''ok'' = TrimSpace ''ok'' \<and>
   run (scripted True [(''boom'', Some (ExitError 1))]) ''psql'' options1 start =
     (([], Some (ErrorString ''raw error: boom'')),
      \<lparr>events = [Stat ''/.dockerenv'', Proc ''psql'' [] (''boom'', Some (ExitError 1))],
         ext = 1\<rparr>) \<and>
   sublist ''boom'' (''raw error: '' @ ''boom'')"
proof -
  have a: "run (scripted True [(''ok'', None)]) ''psql'' options1 start =
     ((''ok'', None),
      \<lparr>events = [Stat ''/.dockerenv'', Proc ''psql'' [] (''ok'', None)], ext = 1\<rparr>)"
    by (simp add: start_def run_scripted_inside outcome_def TrimSpace_ok)
  have b: "run (scripted True [(''boom'', Some (ExitError 1))]) ''psql'' options1 start =
     (([], Some (ErrorString ''raw error: boom'')),
      \<lparr>events = [Stat ''/.dockerenv'', Proc ''psql'' [] (''boom'', Some (ExitError 1))],
         ext = 1\<rparr>)"
    by (simp add: start_def run_scripted_inside outcome_def)
  from run_result [OF a] have "''ok'' = TrimSpace ''ok''"
    by simp
  moreover from run_result [OF b] have "sublist ''boom'' (''raw error: '' @ ''boom'')"
    by simp
  ultimately show ?thesis
    using a b by blast
qed

subsection \<open>Inside a container\<close>

text \<open>
  C9. When the detector reports that the process is inside a container, \<open>run\<close> starts
  exactly one process, and its command line is the command as it was given: no image is
  pulled, and no network or mount flag is added.
\<close>

theorem run_inside_direct:
  assumes "fst (inDocker sys w)"
  shows "snd (run sys cmd opt w) =
     \<lparr>events = events w @
        [Stat ''/.dockerenv'', Proc cmd [] (fst (exec_CombinedOutput sys cmd [] (ext w)))],
      ext = snd (exec_CombinedOutput sys cmd [] (ext w))\<rparr>"
proof -
  from assms have n: "os_Stat sys ''/.dockerenv'' (ext w) = None"
    by (simp add: inDocker_def split: if_splits)
  obtain so se s where e: "exec_CombinedOutput sys cmd [] (ext w) = ((so, se), s)"
    by (cases "exec_CombinedOutput sys cmd [] (ext w)") auto
  from run_inside [OF n e] e show ?thesis
    by simp
qed

theorem run_inside_direct_witness:
  "fst (inDocker (scripted True []) start) \<and>
   snd (run (scripted True []) ''psql -c 1'' (options1\<lparr>DockerNetwork := ''net''\<rparr>) start) =
     \<lparr>events = [Stat ''/.dockerenv'', Proc ''psql -c 1'' [] ([], None)], ext = 1\<rparr>"
proof -
  have h: "fst (inDocker (scripted True []) start)"
    by (simp add: inDocker_def scripted_def)
  from run_inside_direct [OF h, of "''psql -c 1''" "options1\<lparr>DockerNetwork := ''net''\<rparr>"] h
  show ?thesis
    by (simp add: scripted_def start_def)
qed

subsection \<open>The port\<close>

text \<open>
  C8. A configuration whose port is unset (0) gives the same command line, character
  for character, as the same configuration with port 5432: for the builder of inline
  statements, for the builder of file imports, and for the schema dump (whose command
  line is rendered inside \<open>SchemaDump\<close>, so that the whole of \<open>SchemaDump\<close>, with every
  process it starts, is the same).
\<close>

theorem port_default:
  "psql sys d q (opt\<lparr>DBPort := 0\<rparr>) = psql sys d q (opt\<lparr>DBPort := 5432\<rparr>) \<and>
   psqlFile d f (opt\<lparr>DBPort := 0\<rparr>) = psqlFile d f (opt\<lparr>DBPort := 5432\<rparr>) \<and>
   SchemaDump sys d f (opt\<lparr>DBPort := 0\<rparr>) w = SchemaDump sys d f (opt\<lparr>DBPort := 5432\<rparr>) w"
proof -
  have "isValid (opt\<lparr>DBPort := p\<rparr>) d = isValid opt d" for p
    by (simp add: isValid_def)
  then show ?thesis
    by (simp add: psql_def psqlFile_def SchemaDump_def Let_def
        cong: option.case_cong prod.case_cong if_cong)
qed

subsection \<open>The field DBName\<close>

lemma isValid_DBName: "isValid (opt\<lparr>DBName := x\<rparr>) d = isValid opt d"
  by (simp add: isValid_def)

lemma psql_DBName: "psql sys d q (opt\<lparr>DBName := x\<rparr>) = psql sys d q opt"
  by (simp add: psql_def)

lemma psqlFile_DBName: "psqlFile d f (opt\<lparr>DBName := x\<rparr>) = psqlFile d f opt"
  by (simp add: psqlFile_def)

lemma run_DBName: "run sys cmd (opt\<lparr>DBName := x\<rparr>) w = run sys cmd opt w"
  by (simp add: run_def Let_def cong: option.case_cong prod.case_cong if_cong)

lemma Exists_DBName: "Exists sys d (opt\<lparr>DBName := x\<rparr>) w = Exists sys d opt w"
  by (simp add: Exists_def isValid_DBName psql_DBName run_DBName Let_def
      cong: option.case_cong prod.case_cong if_cong)

lemma Terminate_DBName: "Terminate sys d (opt\<lparr>DBName := x\<rparr>) w = Terminate sys d opt w"
  by (simp add: Terminate_def isValid_DBName psql_DBName run_DBName Let_def
      cong: option.case_cong prod.case_cong if_cong)

lemma Drop_DBName: "Drop sys d (opt\<lparr>DBName := x\<rparr>) w = Drop sys d opt w"
  by (simp add: Drop_def Terminate_DBName psql_DBName run_DBName Let_def
      cong: option.case_cong prod.case_cong if_cong)

lemma Create_DBName: "Create sys d (opt\<lparr>DBName := x\<rparr>) w = Create sys d opt w"
  by (simp add: Create_def isValid_DBName psql_DBName run_DBName Exists_DBName Let_def
      cong: option.case_cong prod.case_cong if_cong)

lemma Import_DBName: "Import sys d f (opt\<lparr>DBName := x\<rparr>) w = Import sys d f opt w"
proof -
  have "run sys c (opt\<lparr>DBName := x, dockerVolume := v\<rparr>) w' =
        run sys c (opt\<lparr>dockerVolume := v\<rparr>) w'" for c v w'
    by (simp add: run_def Let_def cong: option.case_cong prod.case_cong if_cong)
  moreover have "psqlFile d f (opt\<lparr>DBName := x, dockerVolume := v\<rparr>) =
                 psqlFile d f (opt\<lparr>dockerVolume := v\<rparr>)" for v
    by (simp add: psqlFile_def)
  ultimately show ?thesis
    by (simp add: Import_def Drop_DBName Create_DBName Let_def
        cong: option.case_cong prod.case_cong if_cong)
qed

lemma SchemaDump_DBName:
  "SchemaDump sys d f (opt\<lparr>DBName := x\<rparr>) w = SchemaDump sys d f opt w"
proof -
  have "run sys c (opt\<lparr>DBName := x, DBPort := v\<rparr>) w' = run sys c (opt\<lparr>DBPort := v\<rparr>) w'"
    for c v w'
    by (simp add: run_def Let_def cong: option.case_cong prod.case_cong if_cong)
  then show ?thesis
    by (simp add: SchemaDump_def isValid_DBName run_DBName Let_def
        cong: option.case_cong prod.case_cong if_cong)
qed

text \<open>
  C10. No public operation reads the field \<open>DBName\<close> of the configuration: two
  configurations that differ only in that field give the same result and the same
  world, for \<open>Create\<close>, \<open>Exists\<close>, \<open>Terminate\<close>, \<open>Drop\<close>, \<open>Import\<close> and \<open>SchemaDump\<close>. The
  database is the one named by the argument.
\<close>

theorem DBName_never_read:
  "Create sys d (opt\<lparr>DBName := x\<rparr>) w = Create sys d opt w \<and>
   Exists sys d (opt\<lparr>DBName := x\<rparr>) w = Exists sys d opt w \<and>
   Terminate sys d (opt\<lparr>DBName := x\<rparr>) w = Terminate sys d opt w \<and>
   Drop sys d (opt\<lparr>DBName := x\<rparr>) w = Drop sys d opt w \<and>
   Import sys d f (opt\<lparr>DBName := x\<rparr>) w = Import sys d f opt w \<and>
   SchemaDump sys d f (opt\<lparr>DBName := x\<rparr>) w = SchemaDump sys d f opt w"
  by (simp only: Create_DBName Exists_DBName Terminate_DBName Drop_DBName Import_DBName
      SchemaDump_DBName)

subsection \<open>Exists\<close>

lemma TrimSpace_f: "TrimSpace '' f'' = ''f''"
  by (simp add: TrimSpace_def TrimLeft.simps leading_rune_def space_runes_def)

lemma TrimSpace_empty: "TrimSpace [] = []"
  by (simp add: TrimSpace_def TrimLeft.simps leading_rune_def space_runes_def)

lemma outcome_error:
  assumes "outcome so se = (out, Some e)"
  shows "\<not> errors_Is e ErrDBNotExist"
proof (cases se)
  case None
  with assms show ?thesis by (simp add: outcome_def)
next
  case (Some x)
  with assms show ?thesis
    by (cases x) (auto simp: outcome_def ErrDBNotExist_def split: if_splits)
qed

lemma run_error_not_ErrDBNotExist:
  assumes "run sys cmd opt w = ((out, Some e), w')"
  shows "\<not> errors_Is e ErrDBNotExist"
proof -
  from run_outcome [of sys cmd opt w] assms obtain so se where "outcome so se = (out, Some e)"
    by auto
  then show ?thesis by (rule outcome_error)
qed

lemma ParseBool_cases:
  "ParseBool s = (True, None) \<or> ParseBool s = (False, None) \<or>
   ParseBool s = (False, Some (NumError ''ParseBool'' s))"
  by (simp add: ParseBool_def)

text \<open>
  C3. For a valid configuration, \<open>Exists\<close> returns nil exactly when its query ran and
  its output parses to true; it returns an error that is \<^verbatim>\<open>ErrDBNotExist\<close> (for
  \<^verbatim>\<open>errors.Is\<close>) exactly when the query ran and its output parses to false, and that
  error wraps \<^verbatim>\<open>ErrDBNotExist\<close> under the database name; an output that is no boolean
  gives the syntax error of \<^verbatim>\<open>ParseBool\<close>, which is not \<^verbatim>\<open>ErrDBNotExist\<close>.
\<close>

theorem Exists_result:
  assumes "isValid opt dbName = None"
    and "run sys (psql sys ''postgres''
           (''SELECT EXISTS ( SELECT datname FROM pg_database WHERE datname = '' @
            [CHR 0x27] @ dbName @ [CHR 0x27] @ '')'') opt) opt w = ((out, err), w1)"
  shows "(fst (Exists sys dbName opt w) = None \<longleftrightarrow> err = None \<and> ParseBool out = (True, None)) \<and>
    ((\<exists>e. fst (Exists sys dbName opt w) = Some e \<and> errors_Is e ErrDBNotExist) \<longleftrightarrow>
       err = None \<and> ParseBool out = (False, None)) \<and>
    (err = None \<and> ParseBool out = (False, None) \<longrightarrow>
       fst (Exists sys dbName opt w) =
         Some (WrapError (dbName @ '': db does not exists'') ErrDBNotExist)) \<and>
    (err = None \<and> snd (ParseBool out) \<noteq> None \<longrightarrow>
       fst (Exists sys dbName opt w) = Some (NumError ''ParseBool'' out) \<and>
       \<not> errors_Is (NumError ''ParseBool'' out) ErrDBNotExist)"
proof (cases err)
  case (Some e)
  with assms have "fst (Exists sys dbName opt w) = Some e"
    by (simp add: Exists_def)
  moreover from assms(2) Some have "\<not> errors_Is e ErrDBNotExist"
    using run_error_not_ErrDBNotExist by blast
  ultimately show ?thesis using Some by simp
next
  case None
  from ParseBool_cases [of out] show ?thesis
  proof (elim disjE)
    assume "ParseBool out = (True, None)"
    with assms None show ?thesis by (simp add: Exists_def)
  next
    assume "ParseBool out = (False, None)"
    with assms None show ?thesis by (simp add: Exists_def ErrDBNotExist_def)
  next
    assume "ParseBool out = (False, Some (NumError ''ParseBool'' out))"
    with assms None show ?thesis by (simp add: Exists_def ErrDBNotExist_def)
  qed
qed

theorem Exists_result_witness:
  "isValid options1 ''shop'' = None \<and>
   run (scripted True [('' f'', None)]) (psql (scripted True [('' f'', None)]) ''postgres''
           (''SELECT EXISTS ( SELECT datname FROM pg_database WHERE datname = '' @
            [CHR 0x27] @ ''shop'' @ [CHR 0x27] @ '')'') options1) options1 start =
     ((''f'', None),
      \<lparr>events = [Stat ''/.dockerenv'',
         Proc (psql (scripted True [('' f'', None)]) ''postgres''
           ''SELECT EXISTS ( SELECT datname FROM pg_database WHERE datname = 'shop')'' options1)
           [] ('' f'', None)], ext = 1\<rparr>) \<and>
   fst (Exists (scripted True [('' f'', None)]) ''shop'' options1 start) =
     Some (WrapError ''shop: db does not exists'' ErrDBNotExist)"
proof -
  have v: "isValid options1 ''shop'' = None"
    by (simp add: isValid_def options1_def)
  have r: "run (scripted True [('' f'', None)]) (psql (scripted True [('' f'', None)]) ''postgres''
           (''SELECT EXISTS ( SELECT datname FROM pg_database WHERE datname = '' @
            [CHR 0x27] @ ''shop'' @ [CHR 0x27] @ '')'') options1) options1 start =
     ((''f'', None),
      \<lparr>events = [Stat ''/.dockerenv'',
         Proc (psql (scripted True [('' f'', None)]) ''postgres''
           ''SELECT EXISTS ( SELECT datname FROM pg_database WHERE datname = 'shop')'' options1)
           [] ('' f'', None)], ext = 1\<rparr>)"
    by (simp add: start_def run_scripted_inside psql_not_cat outcome_def TrimSpace_f)
  have p: "ParseBool ''f'' = (False, None)"
    by (simp add: ParseBool_def)
  from Exists_result [OF v r] p
  have "fst (Exists (scripted True [('' f'', None)]) ''shop'' options1 start) =
     Some (WrapError ''shop: db does not exists'' ErrDBNotExist)"
    by simp
  with v r show ?thesis by blast
qed

subsection \<open>A failing pull\<close>

lemma inDocker_fst: "fst (inDocker sys w) = (os_Stat sys ''/.dockerenv'' (ext w) = None)"
  by (simp add: inDocker_def)

lemma pull_line_not_cat: "pull_line opt \<noteq> ''cat -s''"
  by (simp add: pull_line_def)

lemma container_line_not_cat: "container_line sys cmd opt \<noteq> ''cat -s''"
  by (simp add: container_line_def)

lemma scripted_outside: "os_Stat (scripted False rs) p s = Some (OtherError ''no such file or directory'')"
  by (simp add: scripted_def)

lemma scripted_exec:
  "line \<noteq> ''cat -s'' \<Longrightarrow> k < length rs \<Longrightarrow>
   exec_CombinedOutput (scripted b rs) line stdin k = (rs ! k, Suc k)"
  by (simp add: scripted_def)

text \<open>
  C4. The claim: outside a container, a failure of the image pull gives an error that
  the caller can tell from a failure of the command in the container.

  It cannot: both are built by the same \<^verbatim>\<open>fmt.Errorf("raw error: %s", out)\<close>. In the
  first world below the pull exits with status 1 and prints \<^verbatim>\<open>boom\<close>; in the second the
  pull succeeds and the container exits with status 1 and prints \<^verbatim>\<open>boom\<close>. \<open>run\<close>
  returns the same value in both.
\<close>

theorem pull_failure_indistinguishable:
  "run (scripted False [(''boom'', Some (ExitError 1))]) ''psql'' options1 start =
     (([], Some (ErrorString ''raw error: boom'')),
      \<lparr>events = [Stat ''/.dockerenv'', Proc (pull_line options1) [] (''boom'', Some (ExitError 1))],
       ext = 1\<rparr>) \<and>
   run (scripted False [([], None), (''boom'', Some (ExitError 1))]) ''psql'' options1 start =
     (([], Some (ErrorString ''raw error: boom'')),
      \<lparr>events = [Stat ''/.dockerenv'', Proc (pull_line options1) [] ([], None),
         Proc (container_line (scripted False [([], None), (''boom'', Some (ExitError 1))])
           ''psql'' options1) [] (''boom'', Some (ExitError 1))],
       ext = 2\<rparr>)"
proof -
  let ?A = "scripted False [(''boom'', Some (ExitError 1))]"
  let ?B = "scripted False [([], None), (''boom'', Some (ExitError 1))]"
  have "exec_CombinedOutput ?A (pull_line options1) [] (ext start) = ((''boom'', Some (ExitError 1)), 1)"
    by (simp add: start_def scripted_exec pull_line_not_cat)
  from run_outside_pull_failed [OF scripted_outside this, of "''psql''"]
  have 1: "run ?A ''psql'' options1 start =
     (([], Some (ErrorString ''raw error: boom'')),
      \<lparr>events = [Stat ''/.dockerenv'', Proc (pull_line options1) [] (''boom'', Some (ExitError 1))],
       ext = 1\<rparr>)"
    by (simp add: start_def)
  have p: "exec_CombinedOutput ?B (pull_line options1) [] (ext start) = (([], None), 1)"
    by (simp add: start_def scripted_exec pull_line_not_cat)
  have c: "exec_CombinedOutput ?B (container_line ?B ''psql'' options1) [] 1 =
      ((''boom'', Some (ExitError 1)), 2)"
    by (simp add: scripted_exec container_line_not_cat)
  have "\<forall>n. (None :: oserror option) = Some (ExitError n) \<longrightarrow> n = 0" by simp
  from run_outside_pulled [OF scripted_outside p this c]
  have 2: "run ?B ''psql'' options1 start =
     (([], Some (ErrorString ''raw error: boom'')),
      \<lparr>events = [Stat ''/.dockerenv'', Proc (pull_line options1) [] ([], None),
         Proc (container_line ?B ''psql'' options1) [] (''boom'', Some (ExitError 1))],
       ext = 2\<rparr>)"
    by (simp add: start_def outcome_def options1_def)
  from 1 2 show ?thesis by (rule conjI)
qed

text \<open>
  C4, as amended. Outside a container, a pull that exits with a status greater than 0
  makes \<open>run\<close> return at once, before any container is started, with the error
  \<^verbatim>\<open>raw error: \<close> followed by the output of the pull; a container that exits with a
  status greater than 0 gives an error of the same form with the output of the
  container. Only the text of the output tells them apart.
\<close>

theorem pull_failure_same_kind:
  "(\<not> fst (inDocker sys w) \<and>
    exec_CombinedOutput sys (pull_line opt) [] (ext w) = ((po, Some (ExitError n)), s) \<and> 0 < n \<longrightarrow>
      run sys cmd opt w =
        (([], Some (ErrorString (''raw error: '' @ po))),
         \<lparr>events = events w @
            [Stat ''/.dockerenv'', Proc (pull_line opt) [] (po, Some (ExitError n))],
          ext = s\<rparr>)) \<and>
   (\<not> fst (inDocker sys w) \<and>
    exec_CombinedOutput sys (pull_line opt) [] (ext w) = ((po, None), s) \<and>
    exec_CombinedOutput sys (container_line sys cmd opt) [] s = ((so, Some (ExitError n)), s') \<and>
    0 < n \<longrightarrow>
      fst (run sys cmd opt w) = ([], Some (ErrorString (''raw error: '' @ so))))"
proof (intro conjI impI; elim conjE)
  assume a: "\<not> fst (inDocker sys w)"
    "exec_CombinedOutput sys (pull_line opt) [] (ext w) = ((po, Some (ExitError n)), s)" "0 < n"
  from a(1) obtain x where "os_Stat sys ''/.dockerenv'' (ext w) = Some x"
    by (auto simp: inDocker_fst)
  from run_outside_pull_failed [OF this a(2,3)]
  show "run sys cmd opt w =
        (([], Some (ErrorString (''raw error: '' @ po))),
         \<lparr>events = events w @
            [Stat ''/.dockerenv'', Proc (pull_line opt) [] (po, Some (ExitError n))],
          ext = s\<rparr>)" .
next
  assume a: "\<not> fst (inDocker sys w)"
    "exec_CombinedOutput sys (pull_line opt) [] (ext w) = ((po, None), s)"
    "exec_CombinedOutput sys (container_line sys cmd opt) [] s = ((so, Some (ExitError n)), s')"
    "0 < n"
  from a(1) obtain x where x: "os_Stat sys ''/.dockerenv'' (ext w) = Some x"
    by (auto simp: inDocker_fst)
  have "\<forall>n. (None :: oserror option) = Some (ExitError n) \<longrightarrow> n = 0" by simp
  from run_outside_pulled [OF x a(2) this a(3)] outcome_pull_failed [OF a(4), of so]
  show "fst (run sys cmd opt w) = ([], Some (ErrorString (''raw error: '' @ so)))"
    by simp
qed

theorem pull_failure_same_kind_witness:
  "\<not> fst (inDocker (scripted False [(''boom'', Some (ExitError 1))]) start) \<and>
   exec_CombinedOutput (scripted False [(''boom'', Some (ExitError 1))]) (pull_line options1) []
     (ext start) = ((''boom'', Some (ExitError 1)), 1) \<and> (0::nat) < 1 \<and>
   run (scripted False [(''boom'', Some (ExitError 1))]) ''psql'' options1 start =
     (([], Some (ErrorString ''raw error: boom'')),
      \<lparr>events = [Stat ''/.dockerenv'', Proc (pull_line options1) [] (''boom'', Some (ExitError 1))],
       ext = 1\<rparr>)"
proof -
  have a: "\<not> fst (inDocker (scripted False [(''boom'', Some (ExitError 1))]) start)"
    by (simp add: inDocker_fst scripted_outside)
  have b: "exec_CombinedOutput (scripted False [(''boom'', Some (ExitError 1))]) (pull_line options1) []
     (ext start) = ((''boom'', Some (ExitError 1)), 1)"
    by (simp add: start_def scripted_exec pull_line_not_cat)
  from pull_failure_same_kind [of "scripted False [(''boom'', Some (ExitError 1))]" start options1
      "''boom''" 1 1 "''psql''"] a b
  show ?thesis by (simp add: start_def)
qed

subsection \<open>Validation\<close>

text \<open>
  C7. The claim: every public operation called with an empty database name, host,
  user, password or image fails before any input or output, with the error that names
  the first missing field in the order database name, host, user, password, image.

  \<open>Import\<close> checks its file argument first: with an empty file name and an empty
  database name the error names the file, not the database name.
\<close>

theorem Import_names_sql_file_first:
  "isValid options1 [] = Some (ErrorString ''postdock: required option: db name'') \<and>
   Import (scripted False []) [] [] options1 start =
     (Some (ErrorString ''required option: sql file to import''), start)"
  by (simp add: Import_def isValid_def)

text \<open>
  C7, as amended. \<open>Create\<close>, \<open>Exists\<close>, \<open>Terminate\<close>, \<open>Drop\<close> and \<open>SchemaDump\<close>, and \<open>Import\<close>
  with a file name that is not empty, fail with the error that names the first missing
  field in the order database name, host, user, password, image, and leave the world as
  it was: nothing is started, read, written or logged. \<open>Import\<close> with an empty file name
  fails in the same way with the error that names the file, whatever the other fields.
\<close>

theorem missing_option_fails_fast:
  assumes "dbName = [] \<or> DBHost opt = [] \<or> DBUser opt = [] \<or> DBPassword opt = [] \<or>
           DockerImage opt = []"
  shows "(let err = Some (ErrorString
            (if dbName = [] then ''postdock: required option: db name''
             else if DBHost opt = [] then ''postdock: required option: db host''
             else if DBUser opt = [] then ''postdock: required option: db user''
             else if DBPassword opt = [] then ''postdock: required option: db password''
             else ''postdock: required option: docker base image (ex: postgres:11.7-alpine''))
          in Create sys dbName opt w = (err, w) \<and>
             Exists sys dbName opt w = (err, w) \<and>
             Terminate sys dbName opt w = (err, w) \<and>
             Drop sys dbName opt w = (err, w) \<and>
             SchemaDump sys dbName outputFile opt w = (([], err), w) \<and>
             (sqlFile \<noteq> [] \<longrightarrow> Import sys dbName sqlFile opt w = (err, w)) \<and>
             Import sys dbName [] opt w =
               (Some (ErrorString ''required option: sql file to import''), w))"
  using assms
  by (auto simp: Let_def Create_def Exists_def Terminate_def Drop_def SchemaDump_def Import_def
      isValid_def)

theorem missing_option_fails_fast_witness:
  "Create (scripted False []) [] options1 start =
     (Some (ErrorString ''postdock: required option: db name''), start) \<and>
   SchemaDump (scripted False []) ''shop'' ''out.sql'' (options1\<lparr>DBUser := []\<rparr>) start =
     (([], Some (ErrorString ''postdock: required option: db user'')), start) \<and>
   Import (scripted False []) ''shop'' ''a.sql'' (options1\<lparr>DockerImage := []\<rparr>) start =
     (Some (ErrorString
        ''postdock: required option: docker base image (ex: postgres:11.7-alpine''), start)"
  using missing_option_fails_fast [of "[]" options1 "scripted False []" start "[]" "[]"]
    missing_option_fails_fast [of "''shop''" "options1\<lparr>DBUser := []\<rparr>" "scripted False []"
      start "''out.sql''" "[]"]
    missing_option_fails_fast [of "''shop''" "options1\<lparr>DockerImage := []\<rparr>" "scripted False []"
      start "[]" "''a.sql''"]
  by (simp add: options1_def Let_def)

subsection \<open>The filter of the schema dump\<close>

lemma HasPrefix_prefix: "HasPrefix s p = prefix p s"
  by (induction s p rule: HasPrefix.induct) auto

lemma Contains_sublist: "Contains s sub = sublist sub s"
  by (induction s) (auto simp: HasPrefix_prefix sublist_Cons_right)

lemma split_lines_no_newline: "l \<in> set (split_lines s) \<Longrightarrow> CHR 0x0A \<notin> set l"
  by (induction s arbitrary: l) (auto split: if_splits list.splits)

lemma split_lines_line:
  "CHR 0x0A \<notin> set l \<Longrightarrow> split_lines (l @ CHR 0x0A # r) = l # split_lines r"
  by (induction l) auto

lemma split_write_lines:
  "\<forall>l\<in>set ls. CHR 0x0A \<notin> set l \<Longrightarrow> split_lines (write_lines ls) = ls"
  by (induction ls) (auto simp: write_lines_def split_lines_line)

lemma set_dropCR: "set (dropCR l) \<subseteq> set l"
  by (auto simp: dropCR_def dest: in_set_butlastD)

lemma sublist_dropCR:
  assumes "s \<noteq> []" and "CHR 0x0D \<notin> set s"
  shows "sublist s (dropCR l) = sublist s l"
proof (cases "l \<noteq> [] \<and> last l = CHR 0x0D")
  case False
  then show ?thesis by (auto simp: dropCR_def)
next
  case True
  then have d: "dropCR l = butlast l" and l: "l = butlast l @ [CHR 0x0D]"
    by (auto simp: dropCR_def) (metis append_butlast_last_id)
  show ?thesis
  proof
    assume "sublist s (dropCR l)"
    then obtain ps ss where "butlast l = ps @ s @ ss" by (auto simp: d sublist_def)
    with l have "l = ps @ s @ (ss @ [CHR 0x0D])" by simp
    then show "sublist s l" unfolding sublist_def by blast
  next
    assume "sublist s l"
    then obtain ps ss where e: "l = ps @ s @ ss" by (auto simp: sublist_def)
    have "ss \<noteq> []"
    proof
      assume "ss = []"
      with e assms(1) have "last l = last s" by simp
      with True assms show False by (metis last_in_set)
    qed
    with e have "butlast l = ps @ s @ butlast ss"
      by (simp add: butlast_append)
    then show "sublist s (dropCR l)" unfolding d sublist_def by blast
  qed
qed

lemma prefix_dropCR:
  assumes "p \<noteq> []" and "CHR 0x0D \<notin> set p"
  shows "prefix p (dropCR l) = prefix p l"
proof (cases "l \<noteq> [] \<and> last l = CHR 0x0D")
  case False
  then show ?thesis by (auto simp: dropCR_def)
next
  case True
  then have d: "dropCR l = butlast l" and l: "l = butlast l @ [CHR 0x0D]"
    by (auto simp: dropCR_def) (metis append_butlast_last_id)
  show ?thesis
  proof
    assume "prefix p (dropCR l)"
    then obtain ss where "butlast l = p @ ss" by (auto simp: d prefix_def)
    with l have "l = p @ (ss @ [CHR 0x0D])" by simp
    then show "prefix p l" unfolding prefix_def by blast
  next
    assume "prefix p l"
    then obtain ss where e: "l = p @ ss" by (auto simp: prefix_def)
    have "ss \<noteq> []"
    proof
      assume "ss = []"
      with e assms(1) have "last l = last p" by simp
      with True assms show False by (metis last_in_set)
    qed
    with e have "butlast l = p @ butlast ss"
      by (simp add: butlast_append)
    then show "prefix p (dropCR l)" unfolding d prefix_def by blast
  qed
qed

lemma EachLine_Echo:
  "EachLine k (Echo s) = Echo (write_lines (filter k (map dropCR (split_lines s))))"
  by (simp add: EachLine_def Echo_def ScanLines_def)

lemma stages_lines:
  assumes "\<forall>k\<in>set ks. \<forall>l. k (dropCR l) = k l" and "\<forall>l\<in>set L. CHR 0x0A \<notin> set l"
  shows "stages ks (Echo (write_lines L)) =
     Echo (write_lines (map (dropCR ^^ length ks) (filter (\<lambda>l. \<forall>k\<in>set ks. k l) L)))"
  using assms
proof (induction ks arbitrary: L)
  case Nil
  then show ?case by simp
next
  case (Cons k ks)
  let ?L = "map dropCR (filter k L)"
  from Cons.prems(1) have k: "\<And>l. k (dropCR l) = k l" by simp
  have "filter k (map dropCR L) = ?L"
    by (simp add: filter_map comp_def k)
  with Cons.prems(2) have "EachLine k (Echo (write_lines L)) = Echo (write_lines ?L)"
    by (simp add: EachLine_Echo split_write_lines)
  moreover have "\<forall>l\<in>set ?L. CHR 0x0A \<notin> set l"
    using Cons.prems(2) set_dropCR by fastforce
  moreover from Cons.prems(1) have "\<forall>k\<in>set ks. \<forall>l. k (dropCR l) = k l" by simp
  ultimately have "stages (k # ks) (Echo (write_lines L)) =
     Echo (write_lines (map (dropCR ^^ length ks) (filter (\<lambda>l. \<forall>k\<in>set ks. k l) ?L)))"
    using Cons.IH [of ?L] by simp
  also have "filter (\<lambda>l. \<forall>k\<in>set ks. k l) ?L = map dropCR (filter (\<lambda>l. \<forall>k\<in>set ks. k l) (filter k L))"
  proof -
    from Cons.prems(1) have "(\<forall>k\<in>set ks. k (dropCR x)) = (\<forall>k\<in>set ks. k x)" for x
      by auto
    then show ?thesis by (simp add: filter_map comp_def)
  qed
  also have "map (dropCR ^^ length ks) (map dropCR (filter (\<lambda>l. \<forall>k\<in>set ks. k l) (filter k L))) =
     map (dropCR ^^ length (k # ks)) (filter (\<lambda>l. \<forall>k\<in>set (k # ks). k l) L)"
    by (simp add: funpow_swap1 conj_commute)
  finally show ?case .
qed


lemma squeeze_blank_blank:
  "squeeze_blank ([] # ls) = [] # squeeze_blank (dropWhile (\<lambda>x. x = []) ls)"
proof (induction ls)
  case Nil
  then show ?case by simp
next
  case (Cons a ls)
  then show ?case by (cases ls) auto
qed

lemma squeeze_blank_line: "l \<noteq> [] \<Longrightarrow> squeeze_blank (l # ls) = l # squeeze_blank ls"
  by (cases ls) auto

lemma squeeze_collapse: "squeeze_blank ls = collapse_blank_runs ls"
  by (induction ls rule: collapse_blank_runs.induct)
     (auto simp: squeeze_blank_blank squeeze_blank_line)

lemma set_squeeze_blank: "set (squeeze_blank ls) \<subseteq> set ls"
  by (induction ls rule: squeeze_blank.induct) auto

lemma write_lines_end: "write_lines ls = [] \<or> last (write_lines ls) = CHR 0x0A"
  by (induction ls) (auto simp: write_lines_def)

lemma cat_s_write_lines:
  assumes "\<forall>l\<in>set ls. CHR 0x0A \<notin> set l"
  shows "cat_s (write_lines ls) = write_lines (collapse_blank_runs ls)"
  using write_lines_end [of ls]
  by (auto simp: cat_s_def Let_def split_write_lines [OF assms] squeeze_collapse)

lemma keeps_dropCR: "spec_keeps_line (dropCR l) = spec_keeps_line l"
  by (simp add: spec_keeps_line_def sublist_dropCR prefix_dropCR)

lemma filtered_pipe:
  "RejectRegexp (StartsWith ''GRANT'')
     (RejectRegexp (StartsWith ''SET'')
     (RejectRegexp (StartsWith ''COMMENT ON'')
     (RejectRegexp (StartsWith ''REVOKE'')
     (RejectRegexp (StartsWith ''--'')
     (Reject ''OWNER TO''
     (Reject ''ALTER DEFAULT PRIVILEGES''
     (Echo out))))))) =
   Echo (write_lines (map (dropCR ^^ 7) (filter spec_keeps_line (split_lines out))))"
proof -
  let ?k1 = "\<lambda>l. \<not> sublist ''ALTER DEFAULT PRIVILEGES'' l"
  let ?ks = "[\<lambda>l. \<not> sublist ''OWNER TO'' l, \<lambda>l. \<not> prefix ''--'' l, \<lambda>l. \<not> prefix ''REVOKE'' l,
     \<lambda>l. \<not> prefix ''COMMENT ON'' l, \<lambda>l. \<not> prefix ''SET'' l, \<lambda>l. \<not> prefix ''GRANT'' l]"
  let ?L = "map dropCR (filter ?k1 (split_lines out))"
  have "filter ?k1 (map dropCR (split_lines out)) = ?L"
    by (simp add: filter_map comp_def sublist_dropCR)
  then have 1: "EachLine ?k1 (Echo out) = Echo (write_lines ?L)"
    by (simp add: EachLine_Echo)
  have nl: "\<forall>l\<in>set ?L. CHR 0x0A \<notin> set l"
    using split_lines_no_newline set_dropCR by fastforce
  have inv: "\<forall>k\<in>set ?ks. \<forall>l. k (dropCR l) = k l"
    by (simp add: sublist_dropCR prefix_dropCR)
  have "RejectRegexp (StartsWith ''GRANT'')
     (RejectRegexp (StartsWith ''SET'')
     (RejectRegexp (StartsWith ''COMMENT ON'')
     (RejectRegexp (StartsWith ''REVOKE'')
     (RejectRegexp (StartsWith ''--'')
     (Reject ''OWNER TO''
     (Reject ''ALTER DEFAULT PRIVILEGES''
     (Echo out))))))) = stages ?ks (EachLine ?k1 (Echo out))"
    by (simp add: Reject_def RejectRegexp_def Contains_sublist HasPrefix_prefix)
  also have "\<dots> = Echo (write_lines (map (dropCR ^^ length ?ks)
      (filter (\<lambda>l. \<forall>k\<in>set ?ks. k l) ?L)))"
    unfolding 1 by (rule stages_lines [OF inv nl])
  also have "filter (\<lambda>l. \<forall>k\<in>set ?ks. k l) ?L =
      map dropCR (filter (\<lambda>l. \<forall>k\<in>set ?ks. k l) (filter ?k1 (split_lines out)))"
    by (simp add: filter_map comp_def sublist_dropCR prefix_dropCR)
  also have "filter (\<lambda>l. \<forall>k\<in>set ?ks. k l) (filter ?k1 (split_lines out)) =
      filter spec_keeps_line (split_lines out)"
    by (auto simp: spec_keeps_line_def intro: filter_cong)
  also have "map (dropCR ^^ length ?ks) (map dropCR (filter spec_keeps_line (split_lines out))) =
      map (dropCR ^^ 7) (filter spec_keeps_line (split_lines out))"
    by (simp add: numeral_eq_Suc funpow_swap1)
  finally show ?thesis .
qed


lemma run_DBPort: "run sys cmd (opt\<lparr>DBPort := p\<rparr>) w = run sys cmd opt w"
  by (simp add: run_def Let_def cong: option.case_cong prod.case_cong if_cong)

text \<open>What SchemaDump does once the dump itself has succeeded.\<close>

lemma SchemaDump_after_run:
  assumes "isValid opt dbName = None"
    and "run sys (dump_line dbName opt) opt w = ((out, None), w1)"
  shows "SchemaDump sys dbName outputFile opt w =
    (let (p, w) = Pipe_Exec sys ''cat -s''
           (Echo (write_lines (map (dropCR ^^ 7) (filter spec_keeps_line (split_lines out))))) w1;
         n = ExitStatus p in
     if n > 0 then
       (let p = SetError None p; out = fst (String p) in
        (([], Some (ErrorString (''raw error: '' @ out))), w))
     else
       (case String p of
          (dump, Some err) \<Rightarrow> (([], Some err), w)
        | (dump, None) \<Rightarrow>
           if outputFile \<noteq> [] then
             (case os_OpenFile sys outputFile (ext w) of
                (Some err, s) \<Rightarrow>
                  (([], Some (OSError err)), emit (OpenFile outputFile) (w\<lparr>ext := s\<rparr>))
              | (None, s) \<Rightarrow>
                 (let w = emit (OpenFile outputFile) (w\<lparr>ext := s\<rparr>) in
                  case file_WriteString sys outputFile dump (ext w) of
                    (Some err, s) \<Rightarrow>
                      (([], Some (OSError err)),
                       emit (WriteString outputFile dump) (w\<lparr>ext := s\<rparr>))
                  | (None, s) \<Rightarrow>
                      ((dump, None), emit (WriteString outputFile dump) (w\<lparr>ext := s\<rparr>))))
           else ((dump, None), w)))"
proof (cases "DBPort opt = 0")
  case True
  with assms(2) have "run sys (''PGPASSWORD='' @ DBPassword opt @ '' pg_dump -h '' @ DBHost opt @
      '' -p '' @ itoa 5432 @ '' -U '' @ DBUser opt @ '' '' @ dbName @ '' --schema-only'')
      (opt\<lparr>DBPort := 5432\<rparr>) w = ((out, None), w1)"
    by (simp add: dump_line_def run_DBPort)
  with True assms(1) show ?thesis
    unfolding SchemaDump_def filtered_pipe by (simp add: Let_def)
next
  case False
  with assms(2) have "run sys (''PGPASSWORD='' @ DBPassword opt @ '' pg_dump -h '' @ DBHost opt @
      '' -p '' @ itoa (DBPort opt) @ '' -U '' @ DBUser opt @ '' '' @ dbName @ '' --schema-only'')
      opt w = ((out, None), w1)"
    by (simp add: dump_line_def)
  with False assms(1) show ?thesis
    unfolding SchemaDump_def filtered_pipe by (simp add: Let_def)
qed

lemma SchemaDump_run_failed:
  assumes "run sys (dump_line dbName opt) opt w = ((out, Some e), w1)"
  shows "snd (fst (SchemaDump sys dbName outputFile opt w)) \<noteq> None"
proof (cases "isValid opt dbName")
  case (Some a)
  then show ?thesis by (simp add: SchemaDump_def)
next
  case None
  show ?thesis
  proof (cases "DBPort opt = 0")
    case True
    with assms have "run sys (''PGPASSWORD='' @ DBPassword opt @ '' pg_dump -h '' @ DBHost opt @
      '' -p '' @ itoa 5432 @ '' -U '' @ DBUser opt @ '' '' @ dbName @ '' --schema-only'')
      (opt\<lparr>DBPort := 5432\<rparr>) w = ((out, Some e), w1)"
      by (simp add: dump_line_def run_DBPort)
    with True None show ?thesis
      unfolding SchemaDump_def by (simp add: Let_def)
  next
    case False
    with assms have "run sys (''PGPASSWORD='' @ DBPassword opt @ '' pg_dump -h '' @ DBHost opt @
      '' -p '' @ itoa (DBPort opt) @ '' -U '' @ DBUser opt @ '' '' @ dbName @ '' --schema-only'')
      opt w = ((out, Some e), w1)"
      by (simp add: dump_line_def)
    with False None show ?thesis
      unfolding SchemaDump_def by (simp add: Let_def)
  qed
qed

lemma keeps_funpow: "spec_keeps_line ((dropCR ^^ n) l) = spec_keeps_line l"
  by (induction n) (simp_all add: keeps_dropCR)

lemma split_lines_set: "l \<in> set (split_lines s) \<Longrightarrow> set l \<subseteq> set s"
proof (induction s arbitrary: l)
  case Nil
  then show ?case by simp
next
  case (Cons c s)
  show ?case
  proof (cases "split_lines s")
    case Nil
    with Cons.prems show ?thesis by (auto split: if_splits)
  next
    case (Cons l' ls)
    with Cons.IH have "set l' \<subseteq> set s" "\<forall>x\<in>set ls. set x \<subseteq> set s" by auto
    with Cons.prems Cons show ?thesis by (auto split: if_splits)
  qed
qed

lemma dropCR_id: "CHR 0x0D \<notin> set l \<Longrightarrow> dropCR l = l"
proof (cases "l = []")
  case True
  then show ?thesis by (simp add: dropCR_def)
next
  case False
  assume "CHR 0x0D \<notin> set l"
  with False last_in_set [OF False] have "last l \<noteq> CHR 0x0D" by metis
  then show ?thesis by (simp add: dropCR_def)
qed

lemma dropCR_funpow_id: "CHR 0x0D \<notin> set l \<Longrightarrow> (dropCR ^^ n) l = l"
  by (induction n) (simp_all add: dropCR_id)

lemma spec_dump_filter_example:
  "spec_dump_filter [''-- comment'', ''GRANT x'', ''CREATE TABLE t();'', [], [], ''SET x=y;''] =
     [''CREATE TABLE t();'', []]"
  by (simp add: spec_dump_filter_def spec_keeps_line_def sublist_Cons_right)

lemma TrimSpace_example: "TrimSpace example_dump = example_dump"
  by (simp add: example_dump_def TrimSpace_def TrimLeft.simps leading_rune_def space_runes_def)

lemma dump_line_not_cat: "dump_line d opt \<noteq> ''cat -s''"
  by (simp add: dump_line_def)

lemma cat_s_example:
  "cat_s (write_lines (map (dropCR ^^ 7) (filter spec_keeps_line (split_lines example_dump)))) =
   ''CREATE TABLE t();'' @ [CHR 0x0A, CHR 0x0A]"
  by (simp add: example_dump_def spec_keeps_line_def sublist_Cons_right dropCR_def
      numeral_eq_Suc write_lines_def cat_s_def)

text \<open>
  C5. When the world's \<^verbatim>\<open>cat -s\<close> works (it exits with status 0 and squeezes the blank
  lines of its input) and \<open>SchemaDump\<close> succeeds, the lines of the dump it returns are
  the lines of the raw output without every line that contains
  \<^verbatim>\<open>ALTER DEFAULT PRIVILEGES\<close> or \<^verbatim>\<open>OWNER TO\<close> and every line that starts with \<^verbatim>\<open>--\<close>,
  \<^verbatim>\<open>REVOKE\<close>, \<^verbatim>\<open>COMMENT ON\<close>, \<^verbatim>\<open>SET\<close> or \<^verbatim>\<open>GRANT\<close>, with every run of blank lines
  collapsed into one blank line. Each of the seven line filters also drops one trailing
  carriage return from every line; a raw output without carriage returns is not
  changed by that. The lines of the example filter to the two lines of the
  specification.
\<close>

theorem SchemaDump_filters:
  assumes cat: "\<And>stdin s. fst (exec_CombinedOutput sys ''cat -s'' stdin s) = (cat_s stdin, None)"
    and ok: "SchemaDump sys dbName outputFile opt w = ((dump, None), w')"
    and raw: "run sys (dump_line dbName opt) opt w = ((out, err), w1)"
  shows "split_lines dump = spec_dump_filter (map (dropCR ^^ 7) (split_lines out)) \<and>
    (CHR 0x0D \<notin> set out \<longrightarrow> split_lines dump = spec_dump_filter (split_lines out)) \<and>
    spec_dump_filter [''-- comment'', ''GRANT x'', ''CREATE TABLE t();'', [], [], ''SET x=y;''] =
      [''CREATE TABLE t();'', []]"
proof -
  let ?L = "map (dropCR ^^ 7) (filter spec_keeps_line (split_lines out))"
  from ok have v: "isValid opt dbName = None"
    by (cases "isValid opt dbName") (simp_all add: SchemaDump_def)
  from ok raw have e: "err = None"
    using SchemaDump_run_failed [of sys dbName opt w out _ w1 outputFile] by (cases err) auto
  have nl: "\<forall>l\<in>set ?L. CHR 0x0A \<notin> set l"
  proof
    fix l assume "l \<in> set ?L"
    then obtain l0 where "l0 \<in> set (split_lines out)" "l = (dropCR ^^ 7) l0" by auto
    moreover have "set ((dropCR ^^ n) x) \<subseteq> set x" for n x
      by (induction n) (use set_dropCR in \<open>auto\<close>)
    ultimately show "CHR 0x0A \<notin> set l"
      using split_lines_no_newline by blast
  qed
  obtain r s where x: "exec_CombinedOutput sys ''cat -s'' (write_lines ?L) (ext w1) = (r, s)"
    by (cases "exec_CombinedOutput sys ''cat -s'' (write_lines ?L) (ext w1)") auto
  with cat [of "write_lines ?L" "ext w1"] have r: "r = (cat_s (write_lines ?L), None)"
    by simp
  have p: "Pipe_Exec sys ''cat -s'' (Echo (write_lines ?L)) w1 =
      (Pipe None (cat_s (write_lines ?L)),
       emit (Proc ''cat -s'' (write_lines ?L) r) (w1\<lparr>ext := s\<rparr>))"
    using x r by (simp add: Pipe_Exec_def Echo_def)
  from ok have "dump = cat_s (write_lines ?L)"
    unfolding SchemaDump_after_run [OF v raw [unfolded e]] p
    by (simp add: ExitStatus_def String_def Let_def split: if_splits prod.splits option.splits)
  then have d: "dump = write_lines (collapse_blank_runs ?L)"
    by (simp add: cat_s_write_lines [OF nl])
  have "\<forall>l\<in>set (collapse_blank_runs ?L). CHR 0x0A \<notin> set l"
    using nl set_squeeze_blank [of ?L] by (auto simp: squeeze_collapse)
  with d have "split_lines dump = collapse_blank_runs ?L"
    by (simp add: split_write_lines)
  also have "?L = filter spec_keeps_line (map (dropCR ^^ 7) (split_lines out))"
    by (simp add: filter_map comp_def keeps_funpow)
  finally have 1: "split_lines dump = spec_dump_filter (map (dropCR ^^ 7) (split_lines out))"
    by (simp add: spec_dump_filter_def)
  have 2: "split_lines dump = spec_dump_filter (split_lines out)" if "CHR 0x0D \<notin> set out"
  proof -
    have "map (dropCR ^^ 7) (split_lines out) = split_lines out"
      using that split_lines_set by (intro map_idI dropCR_funpow_id) blast
    with 1 show ?thesis by simp
  qed
  from 1 2 spec_dump_filter_example show ?thesis by blast
qed

theorem SchemaDump_filters_witness:
  "(\<forall>stdin s. fst (exec_CombinedOutput dump_world ''cat -s'' stdin s) = (cat_s stdin, None)) \<and>
   fst (run dump_world (dump_line ''shop'' options1) options1 start) = (example_dump, None) \<and>
   fst (SchemaDump dump_world ''shop'' [] options1 start) =
     (''CREATE TABLE t();'' @ [CHR 0x0A, CHR 0x0A], None) \<and>
   split_lines (''CREATE TABLE t();'' @ [CHR 0x0A, CHR 0x0A]) = [''CREATE TABLE t();'', []] \<and>
   split_lines example_dump =
     [''-- comment'', ''GRANT x'', ''CREATE TABLE t();'', [], [], ''SET x=y;'']"
proof -
  let ?W1 = "\<lparr>events = [Stat ''/.dockerenv'',
      Proc (dump_line ''shop'' options1) [] (example_dump, None)], ext = 1::nat\<rparr>"
  have cat: "fst (exec_CombinedOutput dump_world ''cat -s'' stdin s) = (cat_s stdin, None)"
    for stdin s
    by (simp add: dump_world_def scripted_def)
  have raw: "run dump_world (dump_line ''shop'' options1) options1 start =
      ((example_dump, None), ?W1)"
    by (simp add: dump_world_def start_def run_scripted_inside dump_line_not_cat outcome_def
        TrimSpace_example)
  have v: "isValid options1 ''shop'' = None"
    by (simp add: isValid_def options1_def)
  have "fst (SchemaDump dump_world ''shop'' [] options1 start) =
     (''CREATE TABLE t();'' @ [CHR 0x0A, CHR 0x0A], None)"
    unfolding SchemaDump_after_run [OF v raw]
    by (simp add: Pipe_Exec_def Echo_def dump_world_def scripted_def cat_s_example
        ExitStatus_def String_def)
  then obtain w' where ok: "SchemaDump dump_world ''shop'' [] options1 start =
     ((''CREATE TABLE t();'' @ [CHR 0x0A, CHR 0x0A], None), w')"
    by (cases "SchemaDump dump_world ''shop'' [] options1 start") auto
  have ex: "split_lines example_dump =
     [''-- comment'', ''GRANT x'', ''CREATE TABLE t();'', [], [], ''SET x=y;'']"
    by (simp add: example_dump_def)
  have cr: "CHR 0x0D \<notin> set example_dump"
    by (simp add: example_dump_def)
  from SchemaDump_filters [OF cat ok raw] cr ex
  have "split_lines (''CREATE TABLE t();'' @ [CHR 0x0A, CHR 0x0A]) = [''CREATE TABLE t();'', []]"
    by simp
  with cat raw ok ex show ?thesis by simp
qed

subsection \<open>Import\<close>

lemma TrimPrefix_strip: "TrimPrefix s [c] = strip_leading c s"
  by (cases s) (auto simp: TrimPrefix_def strip_leading_def)

lemma filepath_Split_props:
  "filepath_Split p = (d, f) \<Longrightarrow>
   p = d @ f \<and> CHR ''/'' \<notin> set f \<and> (d = [] \<or> last d = CHR ''/'')"
  by (induction p arbitrary: d f) (auto split: prod.splits if_splits)

lemma psqlFile_not_cat: "psqlFile d f opt \<noteq> ''cat -s''"
  by (simp add: psqlFile_def Let_def)

lemmas eval_defs = start_def options1_def isValid_def run_scripted_inside psql_not_cat
  psqlFile_not_cat outcome_def TrimSpace_t TrimSpace_f TrimSpace_empty ParseBool_def Let_def
  log_Printf_def emit_def

text \<open>
  C6. \<open>Import\<close> with an empty file name fails at once and leaves the world as it was.
  With a file name that is not empty it runs \<open>Drop\<close>, then \<open>Create\<close> in the world that
  \<open>Drop\<close> left, then takes the directory of the file name (after one leading \<^verbatim>\<open>.\<close> and
  then one leading \<^verbatim>\<open>/\<close> are stripped), asks for its absolute path, sets the mount to
  that absolute path, \<^verbatim>\<open>:/\<close> and the directory, and runs the restore of the file (under
  its name as given) with that mount; the first step that fails ends the sequence with
  its error and the world it left.
\<close>

theorem Import_sequence:
  "Import sys dbName [] opt w = (Some (ErrorString ''required option: sql file to import''), w) \<and>
   (sqlFile \<noteq> [] \<longrightarrow>
     (case Drop sys dbName opt w of
        (Some e, w1) \<Rightarrow> Import sys dbName sqlFile opt w = (Some e, w1)
      | (None, w1) \<Rightarrow>
          (case Create sys dbName opt w1 of
             (Some e, w2) \<Rightarrow> Import sys dbName sqlFile opt w = (Some e, w2)
           | (None, w2) \<Rightarrow>
               (let dir = fst (filepath_Split
                            (strip_leading CHR ''/'' (strip_leading CHR ''.'' sqlFile)))
                in case filepath_Abs sys dir (ext w2) of
                     (absDir, Some e) \<Rightarrow>
                       Import sys dbName sqlFile opt w = (Some (OSError e), emit (Abs dir) w2)
                   | (absDir, None) \<Rightarrow>
                       (let opt' = opt\<lparr>dockerVolume := absDir @ '':/'' @ dir\<rparr> in
                        case run sys (psqlFile dbName sqlFile opt') opt' (emit (Abs dir) w2) of
                          ((out, Some e), w3) \<Rightarrow>
                            Import sys dbName sqlFile opt w = (Some e, w3)
                        | ((out, None), w3) \<Rightarrow>
                            Import sys dbName sqlFile opt w =
                              (None,
                               if Debug opt
                               then log_Printf (''['' @ out @
                                      '']: successfully imported into db:'' @ dbName @
                                      '' from file:'' @ sqlFile) w3
                               else w3))))))"
  by (simp add: Import_def TrimPrefix_strip Let_def split: prod.splits option.splits)


theorem Import_sequence_witness:
  "''./data/schema.sql'' \<noteq> [] \<and>
   Import import_world ''shop'' ''./data/schema.sql'' options1 start =
     (None, \<lparr>events =
        [Stat ''/.dockerenv'',
         Proc (psql import_world ''postgres''
           ''SELECT pg_terminate_backend(pid) FROM pg_stat_activity WHERE datname = 'shop';''
           options1) [] ([], None),
         Stat ''/.dockerenv'',
         Proc (psql import_world ''postgres'' ''DROP DATABASE IF EXISTS shop;'' options1)
           [] ([], None),
         Stat ''/.dockerenv'',
         Proc (psql import_world ''postgres''
           ''SELECT EXISTS ( SELECT usename FROM pg_catalog.pg_user WHERE usename = 'app');''
           options1) [] ('' t'', None),
         Stat ''/.dockerenv'',
         Proc (psql import_world ''postgres''
           ''SELECT EXISTS ( SELECT datname FROM pg_database WHERE datname = 'shop')''
           options1) [] ('' f'', None),
         Stat ''/.dockerenv'',
         Proc (psql import_world ''postgres''
           ''CREATE DATABASE shop ENCODING 'UTF-8' LC_COLLATE='en_US.UTF-8' LC_CTYPE='en_US.UTF-8' TEMPLATE template0 OWNER app;''
           options1) [] ([], None),
         Stat ''/.dockerenv'',
         Proc (psql import_world ''shop''
           ''GRANT ALL PRIVILEGES ON ALL TABLES IN SCHEMA public TO app; GRANT ALL PRIVILEGES ON ALL SEQUENCES IN SCHEMA public TO app; ALTER DEFAULT PRIVILEGES IN SCHEMA public GRANT ALL PRIVILEGES ON TABLES TO app; ALTER DEFAULT PRIVILEGES IN SCHEMA public GRANT ALL PRIVILEGES ON SEQUENCES TO app''
           options1) [] ([], None),
         Abs ''data/'',
         Stat ''/.dockerenv'',
         Proc (psqlFile ''shop'' ''./data/schema.sql''
           (options1\<lparr>dockerVolume := ''/work/data:/data/''\<rparr>)) [] ([], None)],
      ext = 7\<rparr>)"
proof -
  let ?W1 = "\<lparr>events =
        [Stat ''/.dockerenv'',
         Proc (psql import_world ''postgres''
           ''SELECT pg_terminate_backend(pid) FROM pg_stat_activity WHERE datname = 'shop';''
           options1) [] ([], None),
         Stat ''/.dockerenv'',
         Proc (psql import_world ''postgres'' ''DROP DATABASE IF EXISTS shop;'' options1)
           [] ([], None)], ext = 2::nat\<rparr>"
  let ?W2 = "\<lparr>events = events ?W1 @
        [Stat ''/.dockerenv'',
         Proc (psql import_world ''postgres''
           ''SELECT EXISTS ( SELECT usename FROM pg_catalog.pg_user WHERE usename = 'app');''
           options1) [] ('' t'', None),
         Stat ''/.dockerenv'',
         Proc (psql import_world ''postgres''
           ''SELECT EXISTS ( SELECT datname FROM pg_database WHERE datname = 'shop')''
           options1) [] ('' f'', None),
         Stat ''/.dockerenv'',
         Proc (psql import_world ''postgres''
           ''CREATE DATABASE shop ENCODING 'UTF-8' LC_COLLATE='en_US.UTF-8' LC_CTYPE='en_US.UTF-8' TEMPLATE template0 OWNER app;''
           options1) [] ([], None),
         Stat ''/.dockerenv'',
         Proc (psql import_world ''shop''
           ''GRANT ALL PRIVILEGES ON ALL TABLES IN SCHEMA public TO app; GRANT ALL PRIVILEGES ON ALL SEQUENCES IN SCHEMA public TO app; ALTER DEFAULT PRIVILEGES IN SCHEMA public GRANT ALL PRIVILEGES ON TABLES TO app; ALTER DEFAULT PRIVILEGES IN SCHEMA public GRANT ALL PRIVILEGES ON SEQUENCES TO app''
           options1) [] ([], None)], ext = 6::nat\<rparr>"
  have d: "Drop import_world ''shop'' options1 start = (None, ?W1)"
    by (simp add: Drop_def Terminate_def import_world_def eval_defs)
  have c: "Create import_world ''shop'' options1 ?W1 = (None, ?W2)"
    by (simp add: Create_def Exists_def import_world_def ErrDBNotExist_def eval_defs)
  have s: "fst (filepath_Split (strip_leading CHR ''/'' (strip_leading CHR ''.''
             ''./data/schema.sql''))) = ''data/''"
    by (simp add: strip_leading_def)
  have a: "filepath_Abs import_world ''data/'' (ext ?W2) = (''/work/data'', None)"
    by (simp add: import_world_def scripted_def)
  have r: "run import_world
      (psqlFile ''shop'' ''./data/schema.sql'' (options1\<lparr>dockerVolume := ''/work/data:/data/''\<rparr>))
      (options1\<lparr>dockerVolume := ''/work/data:/data/''\<rparr>) (emit (Abs ''data/'') ?W2) =
      (([], None), \<lparr>events = events ?W2 @ [Abs ''data/'', Stat ''/.dockerenv'',
         Proc (psqlFile ''shop'' ''./data/schema.sql''
           (options1\<lparr>dockerVolume := ''/work/data:/data/''\<rparr>)) [] ([], None)],
       ext = 7\<rparr>)"
    by (simp add: import_world_def eval_defs)
  have n: "''./data/schema.sql'' \<noteq> []" by simp
  have dbg: "\<not> Debug options1" by (simp add: options1_def)
  from Import_sequence [of import_world "''shop''" options1 start "''./data/schema.sql''"]
    d c s a r dbg
  have "Import import_world ''shop'' ''./data/schema.sql'' options1 start =
     (None, \<lparr>events = events ?W2 @ [Abs ''data/'', Stat ''/.dockerenv'',
         Proc (psqlFile ''shop'' ''./data/schema.sql''
           (options1\<lparr>dockerVolume := ''/work/data:/data/''\<rparr>)) [] ([], None)],
       ext = 7\<rparr>)"
    by (simp add: Let_def)
  with n show ?thesis by simp
qed

end
